theory Spec2Isabelle
  imports Main "HOL-Library.Word"
begin

unbundle bit_operations_syntax

section \<open>x/auth/types/params.go: the auth module's parameters\<close>

text \<open>
  The six parameters are \<open>uint64\<close> fields. Every per-field validator takes an
  \<open>interface{}\<close> and starts with the type assertion \<open>i.(uint64)\<close>; a dynamic value is
  modelled as either a \<open>uint64\<close> or a value of another type (named by its \<open>%T\<close>).
  The errors built with \<open>fmt.Errorf\<close> are constructors carrying the formatted value.
\<close>

type_synonym uint64 = "64 word"

record Params =
  MaxMemoCharacters :: uint64
  TxSigLimit :: uint64
  TxSizeCostPerByte :: uint64
  SigVerifyCostED25519 :: uint64
  SigVerifyCostSecp256k1 :: uint64
  SigVerifyCostSm2 :: uint64

datatype interface = UInt64 uint64 | OtherType string

datatype param_error =
    InvalidParameterType interface
  | InvalidTxSigLimit uint64
  | InvalidSigVerifyCostED25519 uint64
  | InvalidSigVerifyCostSecp256k1 uint64
  | InvalidSigVerifyCostSm2 uint64
  | InvalidMaxMemoCharacters uint64
  | InvalidTxSizeCostPerByte uint64

definition DefaultMaxMemoCharacters :: uint64 where
  "DefaultMaxMemoCharacters = 20971520"

definition DefaultTxSigLimit :: uint64 where
  "DefaultTxSigLimit = 7"

definition DefaultTxSizeCostPerByte :: uint64 where
  "DefaultTxSizeCostPerByte = 10"

definition DefaultSigVerifyCostED25519 :: uint64 where
  "DefaultSigVerifyCostED25519 = 590"

definition DefaultSigVerifyCostSecp256k1 :: uint64 where
  "DefaultSigVerifyCostSecp256k1 = 1000"

definition DefaultSigVerifyCostSm2 :: uint64 where
  "DefaultSigVerifyCostSm2 = 7850"

definition NewParams :: "uint64 \<Rightarrow> uint64 \<Rightarrow> uint64 \<Rightarrow> uint64 \<Rightarrow> uint64 \<Rightarrow> uint64 \<Rightarrow> Params" where
  "NewParams maxMemoCharacters txSigLimit txSizeCostPerByte sigVerifyCostED25519
     sigVerifyCostSecp256k1 sigVerifyCostSm2 =
   \<lparr> MaxMemoCharacters = maxMemoCharacters,
     TxSigLimit = txSigLimit,
     TxSizeCostPerByte = txSizeCostPerByte,
     SigVerifyCostED25519 = sigVerifyCostED25519,
     SigVerifyCostSecp256k1 = sigVerifyCostSecp256k1,
     SigVerifyCostSm2 = sigVerifyCostSm2 \<rparr>"

definition DefaultParams :: Params where
  "DefaultParams =
   \<lparr> MaxMemoCharacters = DefaultMaxMemoCharacters,
     TxSigLimit = DefaultTxSigLimit,
     TxSizeCostPerByte = DefaultTxSizeCostPerByte,
     SigVerifyCostED25519 = DefaultSigVerifyCostED25519,
     SigVerifyCostSecp256k1 = DefaultSigVerifyCostSecp256k1,
     SigVerifyCostSm2 = DefaultSigVerifyCostSm2 \<rparr>"

text \<open>\<open>SigVerifyCostSecp256r1\<close>: unsigned division by two.\<close>

definition SigVerifyCostSecp256r1 :: "Params \<Rightarrow> uint64" where
  "SigVerifyCostSecp256r1 p = SigVerifyCostSecp256k1 p div 2"

text \<open>The validators return \<open>None\<close> for Go's \<open>nil\<close> error.\<close>

fun validateTxSigLimit :: "interface \<Rightarrow> param_error option" where
  "validateTxSigLimit (UInt64 v) = (if v = 0 then Some (InvalidTxSigLimit v) else None)"
| "validateTxSigLimit i = Some (InvalidParameterType i)"

fun validateSigVerifyCostED25519 :: "interface \<Rightarrow> param_error option" where
  "validateSigVerifyCostED25519 (UInt64 v) =
     (if v = 0 then Some (InvalidSigVerifyCostED25519 v) else None)"
| "validateSigVerifyCostED25519 i = Some (InvalidParameterType i)"

fun validateSigVerifyCostSecp256k1 :: "interface \<Rightarrow> param_error option" where
  "validateSigVerifyCostSecp256k1 (UInt64 v) =
     (if v = 0 then Some (InvalidSigVerifyCostSecp256k1 v) else None)"
| "validateSigVerifyCostSecp256k1 i = Some (InvalidParameterType i)"

fun validateSigVerifyCostSm2 :: "interface \<Rightarrow> param_error option" where
  "validateSigVerifyCostSm2 (UInt64 v) =
     (if v = 0 then Some (InvalidSigVerifyCostSm2 v) else None)"
| "validateSigVerifyCostSm2 i = Some (InvalidParameterType i)"

fun validateMaxMemoCharacters :: "interface \<Rightarrow> param_error option" where
  "validateMaxMemoCharacters (UInt64 v) =
     (if v = 0 then Some (InvalidMaxMemoCharacters v) else None)"
| "validateMaxMemoCharacters i = Some (InvalidParameterType i)"

fun validateTxSizeCostPerByte :: "interface \<Rightarrow> param_error option" where
  "validateTxSizeCostPerByte (UInt64 v) =
     (if v = 0 then Some (InvalidTxSizeCostPerByte v) else None)"
| "validateTxSizeCostPerByte i = Some (InvalidParameterType i)"

text \<open>\<open>Params.Validate\<close>: the six checks in the source's order, the first error returned.\<close>

definition Validate :: "Params \<Rightarrow> param_error option" where
  "Validate p =
    (case validateTxSigLimit (UInt64 (TxSigLimit p)) of
       Some err \<Rightarrow> Some err
     | None \<Rightarrow>
    (case validateSigVerifyCostED25519 (UInt64 (SigVerifyCostED25519 p)) of
       Some err \<Rightarrow> Some err
     | None \<Rightarrow>
    (case validateSigVerifyCostSecp256k1 (UInt64 (SigVerifyCostSecp256k1 p)) of
       Some err \<Rightarrow> Some err
     | None \<Rightarrow>
    (case validateSigVerifyCostSm2 (UInt64 (SigVerifyCostSm2 p)) of
       Some err \<Rightarrow> Some err
     | None \<Rightarrow>
    (case validateMaxMemoCharacters (UInt64 (MaxMemoCharacters p)) of
       Some err \<Rightarrow> Some err
     | None \<Rightarrow>
    (case validateTxSizeCostPerByte (UInt64 (TxSizeCostPerByte p)) of
       Some err \<Rightarrow> Some err
     | None \<Rightarrow> None))))))"

section \<open>The world of x/genutil/utils.go\<close>

text \<open>
  \<open>utils.go\<close> works on the filesystem, the process clock and the secure random source,
  through the consensus engine's and the crypto library's primitives. The world is an
  explicit state: regular files by path, directories with their permission bits, the
  paths at which creating or replacing an entry is denied, the process's umask, the keys
  the random source will hand out next, and the time at which the call starts.

  A path is the list of its components below the root, so \<open>filepath.Dir\<close> drops the last
  component. A file's bytes are represented by the document they serialise; anything
  that does not parse as the expected document is \<open>Garbage\<close>.
\<close>

type_synonym bytes = string
type_synonym path = "string list"
type_synonym FileMode = "32 word"
type_synonym Time = nat
type_synonym PrivKey = bytes
type_synonym PubKey = bytes
type_synonym SdkPubKey = bytes
type_synonym ID = string

record GenesisValidator =
  Address :: bytes
  PubKey :: PubKey
  Power :: "64 word"
  Name :: string

text \<open>
  The four fields of \<open>tmtypes.GenesisDoc\<close> that \<open>utils.go\<close> sets. \<open>GenesisTime\<close> counts
  from Go's zero \<open>time.Time\<close>, so \<open>IsZero\<close> is \<open>= 0\<close>.
\<close>

record GenesisDoc =
  GenesisTime :: Time
  ChainID :: string
  Validators :: "GenesisValidator list"
  AppState :: bytes

record FilePVLastSignState =
  Height :: "64 word"
  Round :: "32 word"
  Step :: "8 word"
  Signature :: bytes
  SignBytes :: bytes

datatype content =
    NodeKeyJSON PrivKey
  | FilePVKeyJSON PrivKey
  | FilePVLastSignStateJSON FilePVLastSignState
  | GenesisDocJSON GenesisDoc
  | Garbage bytes

datatype error =
    InvalidMnemonic
  | FilesystemFailure path
  | CorruptIdentityFile path
  | EmptyChainID
  | InvalidValidatorPower
  | DuplicateValidator
  | EntropyExhausted
  | UnsupportedPubKey PubKey
  | Panic error
  | Exit error

record world =
  files :: "path \<rightharpoonup> content"
  dirs :: "path \<rightharpoonup> FileMode"
  readonly :: "path set"
  umask :: FileMode
  entropy :: "PrivKey list"
  clock :: Time

record Config =
  NodeKeyFile :: path
  PrivValidatorKeyFile :: path
  PrivValidatorStateFile :: path

subsection \<open>Operating-system primitives\<close>

text \<open>
  Modelled from the spec: the Go standard library and \<open>tmos\<close> (\<open>filepath.Dir\<close>,
  \<open>tmos.FileExists\<close>, \<open>ioutil.ReadFile\<close>, \<open>ioutil.WriteFile\<close>, \<open>os.MkdirAll\<close>,
  \<open>tmos.EnsureDir\<close>) are not among the sources. Section 4.3 names their failures
  (permission failures, directory-creation failures) and the directory precondition of a
  write; the rest is the documented behaviour of these calls. A write succeeds when the
  containing directory exists, the path is not a directory and the path is not
  write-protected; it then replaces the content.
  \<open>Mkdir\<close> creates one directory with the requested mode less the umask and fails at
  an existing entry or a protected path; \<open>MkdirAll\<close> returns at once if the directory
  exists, fails at a regular file, and otherwise creates the parents first.
\<close>

definition filepath_Dir :: "path \<Rightarrow> path" where
  "filepath_Dir p = butlast p"

definition is_dir :: "world \<Rightarrow> path \<Rightarrow> bool" where
  "is_dir w p = (p = [] \<or> dirs w p \<noteq> None)"

definition FileExists :: "world \<Rightarrow> path \<Rightarrow> bool" where
  "FileExists w p = (files w p \<noteq> None)"

definition ReadFile :: "path \<Rightarrow> world \<Rightarrow> error + content" where
  "ReadFile p w = (case files w p of None \<Rightarrow> Inl (FilesystemFailure p) | Some c \<Rightarrow> Inr c)"

definition WriteFile :: "path \<Rightarrow> content \<Rightarrow> world \<Rightarrow> error option \<times> world" where
  "WriteFile p c w =
    (if is_dir w (filepath_Dir p) \<and> \<not> is_dir w p \<and> p \<notin> readonly w
     then (None, w\<lparr>files := (files w)(p \<mapsto> c)\<rparr>)
     else (Some (FilesystemFailure p), w))"

definition Mkdir :: "path \<Rightarrow> FileMode \<Rightarrow> world \<Rightarrow> error option \<times> world" where
  "Mkdir p perm w =
    (if p \<in> readonly w \<or> files w p \<noteq> None \<or> is_dir w p
     then (Some (FilesystemFailure p), w)
     else (None, w\<lparr>dirs := (dirs w)(p \<mapsto> perm AND NOT (umask w))\<rparr>))"

function MkdirAll :: "path \<Rightarrow> FileMode \<Rightarrow> world \<Rightarrow> error option \<times> world" where
  "MkdirAll p perm w =
    (if is_dir w p then (None, w)
     else if files w p \<noteq> None then (Some (FilesystemFailure p), w)
     else (case MkdirAll (butlast p) perm w of
             (Some err, w') \<Rightarrow> (Some err, w')
           | (None, w') \<Rightarrow> Mkdir p perm w'))"
  by pat_completeness auto
termination
  by (relation "measure (\<lambda>(p, perm, w). length p)") (auto simp: is_dir_def)

declare MkdirAll.simps [simp del]

definition EnsureDir :: "path \<Rightarrow> FileMode \<Rightarrow> world \<Rightarrow> error option \<times> world" where
  "EnsureDir dir mode w = MkdirAll dir mode w"

text \<open>
  A restrictive directory mode, as the consensus engine uses for its own directories
  (\<open>0700\<close>), grants nothing to group and others: none of the bits \<open>077\<close> (63) is set.
\<close>

definition owner_only :: "FileMode \<Rightarrow> bool" where
  "owner_only mode = (mode AND 63 = 0)"

subsection \<open>The crypto collaborators\<close>

text \<open>
  Modelled from the spec: \<open>bip39.IsMnemonicValid\<close>, \<open>algo.GenPrivKeyFromSecret\<close>,
  \<open>PrivKey.PubKey\<close>, \<open>p2p.PubKeyToID\<close> and the public-key codec are not
  among the sources. Section 6 lists them as pure functions consumed from the crypto
  collaborator (mnemonic-checksum validation, a function from secret bytes to a key
  pair, a public-key codec); they are parameters of the model, so every theorem holds
  for whatever these functions compute.
\<close>

record crypto =
  IsMnemonicValid :: "string \<Rightarrow> bool"
  GenPrivKeyFromSecret :: "bytes \<Rightarrow> PrivKey"
  PrivKey_PubKey :: "PrivKey \<Rightarrow> PubKey"
  PubKeyToID :: "PubKey \<Rightarrow> ID"
  PubKeyCodec :: "PubKey \<Rightarrow> SdkPubKey option"

text \<open>
  Modelled from the spec: \<open>cryptocodec.FromTmPubKeyInterface\<close> is not among the sources.
  Section 6: a codec converting the consensus engine's public key to this system's
  representation; its only error is a key the codec does not support.
\<close>

definition FromTmPubKeyInterface :: "crypto \<Rightarrow> PubKey \<Rightarrow> error + SdkPubKey" where
  "FromTmPubKeyInterface cr tmPk =
    (case PubKeyCodec cr tmPk of
       None \<Rightarrow> Inl (UnsupportedPubKey tmPk)
     | Some pk \<Rightarrow> Inr pk)"

text \<open>
  Modelled from the spec: \<open>algo.GenPrivKey\<close>, the secure random generator of section
  4.2, is not among the sources. It draws the next key of the random source and has no
  failure mode other than exhausted entropy, which is fatal.
\<close>

definition GenPrivKey :: "world \<Rightarrow> (error + PrivKey) \<times> world" where
  "GenPrivKey w =
    (case entropy w of
       [] \<Rightarrow> (Inl (Panic EntropyExhausted), w)
     | k # ks \<Rightarrow> (Inr k, w\<lparr>entropy := ks\<rparr>))"

subsection \<open>The transport identity: \<open>p2p.NodeKey\<close>\<close>

text \<open>
  Modelled from the spec: \<open>p2p.NodeKey\<close> with \<open>ID\<close>, \<open>SaveAs\<close>, \<open>LoadNodeKey\<close> and
  \<open>LoadOrGenNodeKey\<close> is not among the sources. Section 4.3: if a key file exists at the
  path, load and return it unchanged; if none exists, obtain a key pair and persist it;
  an unparseable key file is an error. A \<open>NodeKey\<close> is its private key.
\<close>

definition NodeKey_ID :: "crypto \<Rightarrow> PrivKey \<Rightarrow> ID" where
  "NodeKey_ID cr nodeKey = PubKeyToID cr (PrivKey_PubKey cr nodeKey)"

definition NodeKey_SaveAs :: "PrivKey \<Rightarrow> path \<Rightarrow> world \<Rightarrow> error option \<times> world" where
  "NodeKey_SaveAs nodeKey filePath w = WriteFile filePath (NodeKeyJSON nodeKey) w"

definition LoadNodeKey :: "path \<Rightarrow> world \<Rightarrow> error + PrivKey" where
  "LoadNodeKey filePath w =
    (case ReadFile filePath w of
       Inl err \<Rightarrow> Inl err
     | Inr (NodeKeyJSON k) \<Rightarrow> Inr k
     | Inr _ \<Rightarrow> Inl (CorruptIdentityFile filePath))"

definition LoadOrGenNodeKey :: "path \<Rightarrow> world \<Rightarrow> (error + PrivKey) \<times> world" where
  "LoadOrGenNodeKey filePath w =
    (if FileExists w filePath then (LoadNodeKey filePath w, w)
     else (case GenPrivKey w of
             (Inl err, w1) \<Rightarrow> (Inl err, w1)
           | (Inr privKey, w1) \<Rightarrow>
               (case NodeKey_SaveAs privKey filePath w1 of
                  (Some err, w2) \<Rightarrow> (Inl err, w2)
                | (None, w2) \<Rightarrow> (Inr privKey, w2))))"

subsection \<open>The consensus identity: \<open>privval.FilePV\<close>\<close>

text \<open>
  Modelled from the spec: \<open>privval.FilePV\<close> with \<open>NewFilePV\<close>, \<open>Save\<close>, \<open>LoadFilePV\<close>,
  \<open>LoadOrGenFilePV\<close> and \<open>GetPubKey\<close> is not among the sources. Sections 3 and 4.3: the
  validator identity is persisted to two artifacts, the key material and the mutable
  signing state; a new signer starts with last-signed height 0 and no round or step;
  \<open>Save\<close> writes both artifacts; load-or-generate loads both when the key file exists
  and otherwise generates a key and saves. These primitives return no error: a failed
  write panics and a failed load exits the process.
\<close>

record FilePV =
  Key_PrivKey :: PrivKey
  Key_filePath :: path
  LastSignState :: FilePVLastSignState
  LastSignState_filePath :: path

definition stepNone :: "8 word" where
  "stepNone = 0"

definition NewFilePV :: "PrivKey \<Rightarrow> path \<Rightarrow> path \<Rightarrow> FilePV" where
  "NewFilePV privKey keyFilePath stateFilePath =
    \<lparr> Key_PrivKey = privKey,
      Key_filePath = keyFilePath,
      LastSignState = \<lparr> Height = 0, Round = 0, Step = stepNone, Signature = [], SignBytes = [] \<rparr>,
      LastSignState_filePath = stateFilePath \<rparr>"

definition FilePV_Save :: "FilePV \<Rightarrow> world \<Rightarrow> error option \<times> world" where
  "FilePV_Save pv w =
    (case WriteFile (Key_filePath pv) (FilePVKeyJSON (Key_PrivKey pv)) w of
       (Some err, w1) \<Rightarrow> (Some (Panic err), w1)
     | (None, w1) \<Rightarrow>
         (case WriteFile (LastSignState_filePath pv)
                 (FilePVLastSignStateJSON (LastSignState pv)) w1 of
            (Some err, w2) \<Rightarrow> (Some (Panic err), w2)
          | (None, w2) \<Rightarrow> (None, w2)))"

definition LoadFilePV :: "path \<Rightarrow> path \<Rightarrow> world \<Rightarrow> error + FilePV" where
  "LoadFilePV keyFilePath stateFilePath w =
    (case ReadFile keyFilePath w of
       Inl err \<Rightarrow> Inl (Exit err)
     | Inr (FilePVKeyJSON k) \<Rightarrow>
         (case ReadFile stateFilePath w of
            Inl err \<Rightarrow> Inl (Exit err)
          | Inr (FilePVLastSignStateJSON st) \<Rightarrow>
              Inr \<lparr> Key_PrivKey = k, Key_filePath = keyFilePath,
                    LastSignState = st, LastSignState_filePath = stateFilePath \<rparr>
          | Inr _ \<Rightarrow> Inl (Exit (CorruptIdentityFile stateFilePath)))
     | Inr _ \<Rightarrow> Inl (Exit (CorruptIdentityFile keyFilePath)))"

definition LoadOrGenFilePV :: "path \<Rightarrow> path \<Rightarrow> world \<Rightarrow> (error + FilePV) \<times> world" where
  "LoadOrGenFilePV keyFilePath stateFilePath w =
    (if FileExists w keyFilePath then (LoadFilePV keyFilePath stateFilePath w, w)
     else (case GenPrivKey w of
             (Inl err, w1) \<Rightarrow> (Inl err, w1)
           | (Inr privKey, w1) \<Rightarrow>
               (let pv = NewFilePV privKey keyFilePath stateFilePath in
                case FilePV_Save pv w1 of
                  (Some err, w2) \<Rightarrow> (Inl err, w2)
                | (None, w2) \<Rightarrow> (Inr pv, w2))))"

definition FilePV_GetPubKey :: "crypto \<Rightarrow> FilePV \<Rightarrow> error + PubKey" where
  "FilePV_GetPubKey cr pv = Inr (PrivKey_PubKey cr (Key_PrivKey pv))"

subsection \<open>The genesis document: \<open>tmtypes.GenesisDoc\<close>\<close>

text \<open>
  Modelled from the spec: \<open>GenesisDoc.ValidateAndComplete\<close>, \<open>GenesisDoc.SaveAs\<close> and
  \<open>tmtime.Now\<close> are not among the sources. Section 4.4: validation fails with
  \<open>EmptyChainID\<close> if the chain id is empty, with \<open>InvalidValidatorPower\<close> if a validator
  has non-positive voting power, with \<open>DuplicateValidator\<close> if the same public key
  appears twice, in the order chain id, then the validators one by one, each checked for
  power and uniqueness; the timestamp is filled with the current time if the caller left
  it unset. Saving replaces the file at the target path.
\<close>

definition tmtime_Now :: "world \<Rightarrow> Time" where
  "tmtime_Now w = clock w"

fun checkValidators :: "PubKey list \<Rightarrow> GenesisValidator list \<Rightarrow> error option" where
  "checkValidators seen [] = None"
| "checkValidators seen (v # vs) =
    (if sint (Power v) \<le> 0 then Some InvalidValidatorPower
     else if PubKey v \<in> set seen then Some DuplicateValidator
     else checkValidators (PubKey v # seen) vs)"

definition ValidateAndComplete :: "GenesisDoc \<Rightarrow> world \<Rightarrow> error + GenesisDoc" where
  "ValidateAndComplete genDoc w =
    (if ChainID genDoc = [] then Inl EmptyChainID
     else (case checkValidators [] (Validators genDoc) of
             Some err \<Rightarrow> Inl err
           | None \<Rightarrow>
               Inr (if GenesisTime genDoc = 0
                    then genDoc\<lparr>GenesisTime := tmtime_Now w\<rparr>
                    else genDoc)))"

definition GenesisDoc_SaveAs :: "GenesisDoc \<Rightarrow> path \<Rightarrow> world \<Rightarrow> error option \<times> world" where
  "GenesisDoc_SaveAs genDoc file w = WriteFile file (GenesisDocJSON genDoc) w"

section \<open>x/genutil/utils.go\<close>

text \<open>
  Each function returns Go's error (\<open>None\<close> or \<open>Inr\<close> for nil) together with the world
  it leaves behind, also when it fails.
\<close>

definition ExportGenesisFile :: "GenesisDoc \<Rightarrow> path \<Rightarrow> world \<Rightarrow> error option \<times> world" where
  "ExportGenesisFile genDoc genFile w =
    (case ValidateAndComplete genDoc w of
       Inl err \<Rightarrow> (Some err, w)
     | Inr genDoc' \<Rightarrow> GenesisDoc_SaveAs genDoc' genFile w)"

definition ExportGenesisFileWithTime ::
  "path \<Rightarrow> string \<Rightarrow> GenesisValidator list \<Rightarrow> bytes \<Rightarrow> Time \<Rightarrow> world
     \<Rightarrow> error option \<times> world" where
  "ExportGenesisFileWithTime genFile chainID validators appState genTime w =
    (let genDoc = \<lparr> GenesisTime = genTime, ChainID = chainID,
                    Validators = validators, AppState = appState \<rparr>
     in case ValidateAndComplete genDoc w of
          Inl err \<Rightarrow> (Some err, w)
        | Inr genDoc' \<Rightarrow> GenesisDoc_SaveAs genDoc' genFile w)"

definition InitializeNodeValidatorFilesFromMnemonic ::
  "crypto \<Rightarrow> Config \<Rightarrow> string \<Rightarrow> world \<Rightarrow> (error + ID \<times> SdkPubKey) \<times> world" where
  "InitializeNodeValidatorFilesFromMnemonic cr config mnemonic w =
    (if length mnemonic > 0 \<and> \<not> IsMnemonicValid cr mnemonic then (Inl InvalidMnemonic, w)
     else
      (case (if length mnemonic = 0 then LoadOrGenNodeKey (NodeKeyFile config) w
             else (let privKey = GenPrivKeyFromSecret cr mnemonic in
                   case NodeKey_SaveAs privKey (NodeKeyFile config) w of
                     (Some err, w1) \<Rightarrow> (Inl err, w1)
                   | (None, w1) \<Rightarrow> (Inr privKey, w1))) of
         (Inl err, w1) \<Rightarrow> (Inl err, w1)
       | (Inr nodeKey, w1) \<Rightarrow>
          (let nodeID = NodeKey_ID cr nodeKey;
               pvKeyFile = PrivValidatorKeyFile config in
           case EnsureDir (filepath_Dir pvKeyFile) 511 w1 of
             (Some err, w2) \<Rightarrow> (Inl err, w2)
           | (None, w2) \<Rightarrow>
          (let pvStateFile = PrivValidatorStateFile config in
           case EnsureDir (filepath_Dir pvStateFile) 511 w2 of
             (Some err, w3) \<Rightarrow> (Inl err, w3)
           | (None, w3) \<Rightarrow>
          (case (if length mnemonic = 0 then LoadOrGenFilePV pvKeyFile pvStateFile w3
                 else (let privKey = GenPrivKeyFromSecret cr mnemonic;
                           filePV = NewFilePV privKey pvKeyFile pvStateFile in
                       case FilePV_Save filePV w3 of
                         (Some err, w4) \<Rightarrow> (Inl err, w4)
                       | (None, w4) \<Rightarrow> (Inr filePV, w4))) of
             (Inl err, w4) \<Rightarrow> (Inl err, w4)
           | (Inr filePV, w4) \<Rightarrow>
          (case FilePV_GetPubKey cr filePV of
             Inl err \<Rightarrow> (Inl err, w4)
           | Inr tmValPubKey \<Rightarrow>
          (case FromTmPubKeyInterface cr tmValPubKey of
             Inl err \<Rightarrow> (Inl err, w4)
           | Inr valPubKey \<Rightarrow> (Inr (nodeID, valPubKey), w4))))))))"

definition InitializeNodeValidatorFiles ::
  "crypto \<Rightarrow> Config \<Rightarrow> world \<Rightarrow> (error + ID \<times> SdkPubKey) \<times> world" where
  "InitializeNodeValidatorFiles cr config w =
     InitializeNodeValidatorFilesFromMnemonic cr config [] w"

section \<open>A concrete configuration, worlds and collaborators\<close>

text \<open>
  Concrete inputs on which the theorems below are run. The collaborator functions tag
  their argument, and two phrases count as valid mnemonics.
\<close>

definition mnemonicA :: string where
  "mnemonicA = ''abandon abandon abandon abandon abandon abandon abandon abandon abandon abandon abandon about''"

definition mnemonicB :: string where
  "mnemonicB = ''legal winner thank year wave sausage worth useful legal winner thank yellow''"

definition crypto0 :: crypto where
  "crypto0 =
    \<lparr> IsMnemonicValid = (\<lambda>m. m = mnemonicA \<or> m = mnemonicB),
      GenPrivKeyFromSecret = (\<lambda>secret. ''priv/'' @ secret),
      PrivKey_PubKey = (\<lambda>k. ''pub/'' @ k),
      PubKeyToID = (\<lambda>k. ''id/'' @ k),
      PubKeyCodec = (\<lambda>k. Some k) \<rparr>"

definition config0 :: Config where
  "config0 =
    \<lparr> NodeKeyFile = [''home'', ''config'', ''node_key.json''],
      PrivValidatorKeyFile = [''home'', ''config'', ''priv_validator_key.json''],
      PrivValidatorStateFile = [''home'', ''data'', ''priv_validator_state.json''] \<rparr>"

text \<open>
  Node homes, all with umask 022. \<open>fresh0\<close> has a \<open>config\<close> directory, no \<open>data\<close>
  directory and no file; \<open>provisioned0\<close> is \<open>fresh0\<close> after a first provisioning without
  mnemonic; \<open>initialized0\<close> is a node that has been running, its signing state at height
  5; \<open>nodeKeyOnly0\<close> and \<open>validatorOnly0\<close> are \<open>initialized0\<close> with only the node key
  file, and with only the two validator files; \<open>emptyHome0\<close> has both directories and no
  file.
\<close>

definition fresh0 :: world where
  "fresh0 =
    \<lparr> files = Map.empty,
      dirs = [[''home''] \<mapsto> 493, [''home'', ''config''] \<mapsto> 493],
      readonly = {},
      umask = 18,
      entropy = [''random key 1'', ''random key 2''],
      clock = 1700000000 \<rparr>"

definition provisioned0 :: world where
  "provisioned0 =
    \<lparr> files = [NodeKeyFile config0 \<mapsto> NodeKeyJSON ''random key 1'',
               PrivValidatorKeyFile config0 \<mapsto> FilePVKeyJSON ''random key 2'',
               PrivValidatorStateFile config0 \<mapsto> FilePVLastSignStateJSON
                 \<lparr> Height = 0, Round = 0, Step = stepNone, Signature = [], SignBytes = [] \<rparr>],
      dirs = [[''home''] \<mapsto> 493, [''home'', ''config''] \<mapsto> 493, [''home'', ''data''] \<mapsto> 493],
      readonly = {},
      umask = 18,
      entropy = [],
      clock = 1700000000 \<rparr>"

definition signedState :: FilePVLastSignState where
  "signedState = \<lparr> Height = 5, Round = 0, Step = 3, Signature = ''sig'', SignBytes = ''vote'' \<rparr>"

definition initialized0 :: world where
  "initialized0 =
    \<lparr> files = [NodeKeyFile config0 \<mapsto> NodeKeyJSON ''node key on disk'',
               PrivValidatorKeyFile config0 \<mapsto> FilePVKeyJSON ''validator key on disk'',
               PrivValidatorStateFile config0 \<mapsto> FilePVLastSignStateJSON signedState],
      dirs = [[''home''] \<mapsto> 493, [''home'', ''config''] \<mapsto> 493, [''home'', ''data''] \<mapsto> 493],
      readonly = {},
      umask = 18,
      entropy = [''random key 3''],
      clock = 1700000100 \<rparr>"

definition nodeKeyOnly0 :: world where
  "nodeKeyOnly0 =
    initialized0\<lparr>files := [NodeKeyFile config0 \<mapsto> NodeKeyJSON ''node key on disk'']\<rparr>"

definition validatorOnly0 :: world where
  "validatorOnly0 =
    initialized0\<lparr>files :=
      [PrivValidatorKeyFile config0 \<mapsto> FilePVKeyJSON ''validator key on disk'',
       PrivValidatorStateFile config0 \<mapsto> FilePVLastSignStateJSON signedState]\<rparr>"

definition emptyHome0 :: world where
  "emptyHome0 =
    \<lparr> files = Map.empty,
      dirs = [[''home''] \<mapsto> 493, [''home'', ''config''] \<mapsto> 493, [''home'', ''data''] \<mapsto> 493],
      readonly = {},
      umask = 18,
      entropy = [''random key 4'', ''random key 5''],
      clock = 1700000200 \<rparr>"

text \<open>
  A genesis file path and three validators: \<open>validatorB\<close> shares its public key with
  \<open>validatorA\<close>, \<open>validatorZ\<close> has no voting power.
\<close>

definition genesisFile0 :: path where
  "genesisFile0 = [''home'', ''config'', ''genesis.json'']"

definition validatorA :: GenesisValidator where
  "validatorA = \<lparr> Address = [], PubKey = ''PK_A'', Power = 10, Name = ''v1'' \<rparr>"

definition validatorB :: GenesisValidator where
  "validatorB = \<lparr> Address = [], PubKey = ''PK_A'', Power = 3, Name = ''v2'' \<rparr>"

definition validatorZ :: GenesisValidator where
  "validatorZ = \<lparr> Address = [], PubKey = ''PK_Z'', Power = 0, Name = ''v0'' \<rparr>"

section \<open>Theorems\<close>

subsection \<open>The parameter validators\<close>

text \<open>
  C8. \<open>Params.Validate\<close> returns nil exactly when all six parameters are non-zero;
  each per-field validator, given a \<open>uint64\<close>, returns an error exactly for the value
  zero; and \<open>DefaultParams()\<close> passes \<open>Validate\<close>.
\<close>

theorem Validate_nil_iff_all_nonzero:
  "(Validate p = None) =
     (MaxMemoCharacters p \<noteq> 0 \<and> TxSigLimit p \<noteq> 0 \<and> TxSizeCostPerByte p \<noteq> 0 \<and>
      SigVerifyCostED25519 p \<noteq> 0 \<and> SigVerifyCostSecp256k1 p \<noteq> 0 \<and>
      SigVerifyCostSm2 p \<noteq> 0)
   \<and> (validateTxSigLimit (UInt64 v) = None) = (v \<noteq> 0)
   \<and> (validateSigVerifyCostED25519 (UInt64 v) = None) = (v \<noteq> 0)
   \<and> (validateSigVerifyCostSecp256k1 (UInt64 v) = None) = (v \<noteq> 0)
   \<and> (validateSigVerifyCostSm2 (UInt64 v) = None) = (v \<noteq> 0)
   \<and> (validateMaxMemoCharacters (UInt64 v) = None) = (v \<noteq> 0)
   \<and> (validateTxSizeCostPerByte (UInt64 v) = None) = (v \<noteq> 0)
   \<and> Validate DefaultParams = None"
proof -
  have all: "(Validate p = None) =
     (MaxMemoCharacters p \<noteq> 0 \<and> TxSigLimit p \<noteq> 0 \<and> TxSizeCostPerByte p \<noteq> 0 \<and>
      SigVerifyCostED25519 p \<noteq> 0 \<and> SigVerifyCostSecp256k1 p \<noteq> 0 \<and>
      SigVerifyCostSm2 p \<noteq> 0)" for p
    by (auto simp: Validate_def split: option.splits if_splits)
  have dflt: "Validate DefaultParams = None"
    unfolding all
    by (simp add: DefaultParams_def DefaultMaxMemoCharacters_def DefaultTxSigLimit_def
        DefaultTxSizeCostPerByte_def DefaultSigVerifyCostED25519_def
        DefaultSigVerifyCostSecp256k1_def DefaultSigVerifyCostSm2_def)
  show ?thesis
    using all [of p] dflt by simp
qed

subsection \<open>What the primitives leave unchanged\<close>

lemma WriteFile_frame:
  "WriteFile p c w = (r, w') \<Longrightarrow>
     dirs w' = dirs w \<and> readonly w' = readonly w \<and> umask w' = umask w \<and>
     entropy w' = entropy w \<and> clock w' = clock w"
  by (auto simp: WriteFile_def split: if_splits)

lemma WriteFile_files:
  "WriteFile p c w = (r, w') \<Longrightarrow>
     files w' = (if r = None then (files w)(p \<mapsto> c) else files w)"
  by (auto simp: WriteFile_def split: if_splits)

lemma WriteFile_ok:
  "is_dir w (filepath_Dir p) \<Longrightarrow> \<not> is_dir w p \<Longrightarrow> p \<notin> readonly w \<Longrightarrow>
     WriteFile p c w = (None, w\<lparr>files := (files w)(p \<mapsto> c)\<rparr>)"
  by (simp add: WriteFile_def)

lemma Mkdir_frame:
  "Mkdir p perm w = (r, w') \<Longrightarrow>
     files w' = files w \<and> readonly w' = readonly w \<and> umask w' = umask w \<and>
     entropy w' = entropy w \<and> clock w' = clock w"
  by (auto simp: Mkdir_def split: if_splits)

lemma MkdirAll_frame:
  "MkdirAll p perm w = (r, w') \<Longrightarrow>
     files w' = files w \<and> readonly w' = readonly w \<and> umask w' = umask w \<and>
     entropy w' = entropy w \<and> clock w' = clock w"
proof (induction p perm w arbitrary: r w' rule: MkdirAll.induct)
  case (1 p perm w)
  show ?case
  proof (cases "is_dir w p \<or> files w p \<noteq> None")
    case True
    with "1.prems" show ?thesis
      by (auto simp: MkdirAll.simps [of p perm w] split: if_splits)
  next
    case False
    obtain r1 w1 where rec: "MkdirAll (butlast p) perm w = (r1, w1)"
      by (cases "MkdirAll (butlast p) perm w")
    from False have a: "\<not> is_dir w p" and b: "\<not> files w p \<noteq> None" by auto
    have ih: "files w1 = files w \<and> readonly w1 = readonly w \<and> umask w1 = umask w \<and>
     entropy w1 = entropy w \<and> clock w1 = clock w"
      using "1.IH" [OF a b rec] .
    show ?thesis
    proof (cases r1)
      case None
      with rec "1.prems" False have "Mkdir p perm w1 = (r, w')"
        by (simp add: MkdirAll.simps [of p perm w])
      from Mkdir_frame [OF this] ih show ?thesis by simp
    next
      case (Some e)
      with rec "1.prems" False have "w' = w1"
        by (simp add: MkdirAll.simps [of p perm w])
      with ih show ?thesis by simp
    qed
  qed
qed

lemma MkdirAll_dirs:
  "MkdirAll p perm w = (r, w') \<Longrightarrow>
     (\<forall>q. dirs w q \<noteq> None \<longrightarrow> dirs w' q = dirs w q) \<and>
     (\<forall>q. dirs w q = None \<and> dirs w' q \<noteq> None \<longrightarrow> dirs w' q = Some (perm AND NOT (umask w)))
     \<and> (r = None \<longrightarrow> is_dir w' p)"
proof (induction p perm w arbitrary: r w' rule: MkdirAll.induct)
  case (1 p perm w)
  show ?case
  proof (cases "is_dir w p \<or> files w p \<noteq> None")
    case True
    with "1.prems" show ?thesis
      by (auto simp: MkdirAll.simps [of p perm w] split: if_splits)
  next
    case False
    obtain r1 w1 where rec: "MkdirAll (butlast p) perm w = (r1, w1)"
      by (cases "MkdirAll (butlast p) perm w")
    from False have a: "\<not> is_dir w p" and b: "\<not> files w p \<noteq> None" by auto
    note ih = "1.IH" [OF a b rec]
    have um: "umask w1 = umask w" using MkdirAll_frame [OF rec] by simp
    show ?thesis
    proof (cases r1)
      case None
      with rec "1.prems" False have mk: "Mkdir p perm w1 = (r, w')"
        by (simp add: MkdirAll.simps [of p perm w])
      show ?thesis using mk ih um
        by (auto simp: Mkdir_def is_dir_def split: if_splits)
    next
      case (Some e)
      with rec "1.prems" False have "w' = w1" "r = Some e"
        by (simp_all add: MkdirAll.simps [of p perm w])
      with ih show ?thesis by simp
    qed
  qed
qed

lemma GenPrivKey_frame:
  "GenPrivKey w = (r, w') \<Longrightarrow>
     files w' = files w \<and> dirs w' = dirs w \<and> readonly w' = readonly w \<and>
     umask w' = umask w \<and> clock w' = clock w"
  by (auto simp: GenPrivKey_def split: list.splits)

subsection \<open>Genesis export\<close>

lemma checkValidators_ok:
  "\<forall>v\<in>set vs. 0 < sint (Power v) \<Longrightarrow> distinct (map PubKey vs) \<Longrightarrow>
   set seen \<inter> PubKey ` set vs = {} \<Longrightarrow> checkValidators seen vs = None"
  by (induction vs arbitrary: seen) auto

lemma checkValidators_power:
  "\<exists>v\<in>set vs. sint (Power v) \<le> 0 \<Longrightarrow> distinct (map PubKey vs) \<Longrightarrow>
   set seen \<inter> PubKey ` set vs = {} \<Longrightarrow> checkValidators seen vs = Some InvalidValidatorPower"
proof (induction vs arbitrary: seen)
  case Nil
  then show ?case by simp
next
  case (Cons v vs)
  show ?case
  proof (cases "sint (Power v) \<le> 0")
    case True
    then show ?thesis by simp
  next
    case False
    from Cons.prems False have ex: "\<exists>v\<in>set vs. sint (Power v) \<le> 0" by auto
    from Cons.prems have d: "distinct (map PubKey vs)" by simp
    from Cons.prems have n: "PubKey v \<notin> set seen" by auto
    from Cons.prems have "set (PubKey v # seen) \<inter> PubKey ` set vs = {}" by auto
    from Cons.IH [OF ex d this] False n show ?thesis by simp
  qed
qed

lemma checkValidators_duplicate:
  "\<forall>v\<in>set vs. 0 < sint (Power v) \<Longrightarrow>
   \<not> distinct (map PubKey vs) \<or> set seen \<inter> PubKey ` set vs \<noteq> {} \<Longrightarrow>
   checkValidators seen vs = Some DuplicateValidator"
proof (induction vs arbitrary: seen)
  case Nil
  then show ?case by simp
next
  case (Cons v vs)
  show ?case
  proof (cases "PubKey v \<in> set seen")
    case True
    with Cons.prems show ?thesis by simp
  next
    case False
    have "\<not> distinct (map PubKey vs) \<or> set (PubKey v # seen) \<inter> PubKey ` set vs \<noteq> {}"
      using Cons.prems(2) False by auto
    with Cons.IH [of "PubKey v # seen"] Cons.prems(1) False show ?thesis
      by simp
  qed
qed

lemma checkValidators_prefix:
  "\<forall>u\<in>set pre. 0 < sint (Power u) \<Longrightarrow> distinct (map PubKey pre) \<Longrightarrow>
   set seen \<inter> PubKey ` set pre = {} \<Longrightarrow>
   checkValidators seen (pre @ rest) = checkValidators (rev (map PubKey pre) @ seen) rest"
proof (induction pre arbitrary: seen)
  case Nil
  then show ?case by simp
next
  case (Cons u pre)
  from Cons.prems have p: "\<forall>x\<in>set pre. 0 < sint (Power x)" and d: "distinct (map PubKey pre)"
    and n: "PubKey u \<notin> set seen" and pu: "0 < sint (Power u)"
    by auto
  from Cons.prems have "set (PubKey u # seen) \<inter> PubKey ` set pre = {}" by auto
  from Cons.IH [OF p d this] n pu show ?case by simp
qed

lemma checkValidators_error:
  "checkValidators seen vs = Some e \<Longrightarrow> e = InvalidValidatorPower \<or> e = DuplicateValidator"
  by (induction vs arbitrary: seen) (auto split: if_splits)

lemma checkValidators_None:
  "checkValidators seen vs = None \<Longrightarrow>
     (\<forall>v\<in>set vs. 0 < sint (Power v)) \<and> distinct (map PubKey vs)"
proof (induction vs arbitrary: seen)
  case Nil
  then show ?case by simp
next
  case (Cons v vs)
  from Cons.prems have a: "0 < sint (Power v)" and b: "PubKey v \<notin> set seen"
    and c: "checkValidators (PubKey v # seen) vs = None"
    by (auto split: if_splits)
  have "PubKey v \<notin> PubKey ` set vs"
  proof
    assume "PubKey v \<in> PubKey ` set vs"
    then have "set (PubKey v # seen) \<inter> PubKey ` set vs \<noteq> {}" by auto
    with checkValidators_duplicate [of vs "PubKey v # seen"] Cons.IH [OF c] c
    show False by simp
  qed
  with Cons.IH [OF c] a show ?case by simp
qed

text \<open>
  C3, as the validation order has it. \<open>ExportGenesisFileWithTime\<close> fails with
  \<open>EmptyChainID\<close> when the chain id is empty, whatever the validators. Past that check
  the validators are checked one by one, power before uniqueness, and the first
  validator that fails a check decides the error: \<open>InvalidValidatorPower\<close> if its voting
  power is non-positive, \<open>DuplicateValidator\<close> if its public key has appeared before it.
  So every list with a non-positive power or a repeated key is rejected with one of the
  two errors, and each failure leaves the world as it was. When the document is valid
  and the supplied timestamp is the zero value, the written document carries the current
  time, which is non-zero and no earlier than the start of the call.
\<close>

theorem ExportGenesisFileWithTime_first_failing_check:
  "(chainID = [] \<longrightarrow>
      ExportGenesisFileWithTime genFile chainID vals app t w = (Some EmptyChainID, w))
   \<and> (chainID \<noteq> [] \<and> vals = pre @ v # post \<and>
       (\<forall>u\<in>set pre. 0 < sint (Power u)) \<and> distinct (map PubKey pre) \<and>
       sint (Power v) \<le> 0 \<longrightarrow>
      ExportGenesisFileWithTime genFile chainID vals app t w = (Some InvalidValidatorPower, w))
   \<and> (chainID \<noteq> [] \<and> vals = pre @ v # post \<and>
       (\<forall>u\<in>set pre. 0 < sint (Power u)) \<and> distinct (map PubKey pre) \<and>
       0 < sint (Power v) \<and> PubKey v \<in> PubKey ` set pre \<longrightarrow>
      ExportGenesisFileWithTime genFile chainID vals app t w = (Some DuplicateValidator, w))
   \<and> (chainID \<noteq> [] \<and>
       ((\<exists>u\<in>set vals. sint (Power u) \<le> 0) \<or> \<not> distinct (map PubKey vals)) \<longrightarrow>
      ExportGenesisFileWithTime genFile chainID vals app t w = (Some InvalidValidatorPower, w) \<or>
      ExportGenesisFileWithTime genFile chainID vals app t w = (Some DuplicateValidator, w))
   \<and> (chainID \<noteq> [] \<and> (\<forall>u\<in>set vals. 0 < sint (Power u)) \<and> distinct (map PubKey vals) \<and>
       0 < clock w \<and>
       is_dir w (filepath_Dir genFile) \<and> \<not> is_dir w genFile \<and> genFile \<notin> readonly w \<longrightarrow>
      (\<exists>genDoc w'.
         ExportGenesisFileWithTime genFile chainID vals app 0 w = (None, w') \<and>
         files w' genFile = Some (GenesisDocJSON genDoc) \<and>
         GenesisTime genDoc \<noteq> 0 \<and> GenesisTime genDoc = tmtime_Now w \<and>
         clock w \<le> GenesisTime genDoc \<and>
         ChainID genDoc = chainID \<and> Validators genDoc = vals \<and> AppState genDoc = app))"
proof -
  let ?run = "ExportGenesisFileWithTime genFile chainID vals app t w"
  have 1: "chainID = [] \<longrightarrow> ?run = (Some EmptyChainID, w)"
    by (simp add: ExportGenesisFileWithTime_def ValidateAndComplete_def)
  have 2: "chainID \<noteq> [] \<and> vals = pre @ v # post \<and>
       (\<forall>u\<in>set pre. 0 < sint (Power u)) \<and> distinct (map PubKey pre) \<and>
       sint (Power v) \<le> 0 \<longrightarrow> ?run = (Some InvalidValidatorPower, w)"
  proof
    assume h: "chainID \<noteq> [] \<and> vals = pre @ v # post \<and>
       (\<forall>u\<in>set pre. 0 < sint (Power u)) \<and> distinct (map PubKey pre) \<and> sint (Power v) \<le> 0"
    then have "checkValidators [] (pre @ v # post)
        = checkValidators (rev (map PubKey pre) @ []) (v # post)"
      by (intro checkValidators_prefix) simp_all
    with h have "checkValidators [] vals = Some InvalidValidatorPower" by simp
    with h show "?run = (Some InvalidValidatorPower, w)"
      by (simp add: ExportGenesisFileWithTime_def ValidateAndComplete_def)
  qed
  have 3: "chainID \<noteq> [] \<and> vals = pre @ v # post \<and>
       (\<forall>u\<in>set pre. 0 < sint (Power u)) \<and> distinct (map PubKey pre) \<and>
       0 < sint (Power v) \<and> PubKey v \<in> PubKey ` set pre \<longrightarrow>
       ?run = (Some DuplicateValidator, w)"
  proof
    assume h: "chainID \<noteq> [] \<and> vals = pre @ v # post \<and>
       (\<forall>u\<in>set pre. 0 < sint (Power u)) \<and> distinct (map PubKey pre) \<and>
       0 < sint (Power v) \<and> PubKey v \<in> PubKey ` set pre"
    then have "checkValidators [] (pre @ v # post)
        = checkValidators (rev (map PubKey pre) @ []) (v # post)"
      by (intro checkValidators_prefix) simp_all
    with h have "checkValidators [] vals = Some DuplicateValidator" by simp
    with h show "?run = (Some DuplicateValidator, w)"
      by (simp add: ExportGenesisFileWithTime_def ValidateAndComplete_def)
  qed
  have 4: "chainID \<noteq> [] \<and>
       ((\<exists>u\<in>set vals. sint (Power u) \<le> 0) \<or> \<not> distinct (map PubKey vals)) \<longrightarrow>
      ?run = (Some InvalidValidatorPower, w) \<or> ?run = (Some DuplicateValidator, w)"
  proof
    assume h: "chainID \<noteq> [] \<and>
       ((\<exists>u\<in>set vals. sint (Power u) \<le> 0) \<or> \<not> distinct (map PubKey vals))"
    have "checkValidators [] vals \<noteq> None"
    proof
      assume "checkValidators [] vals = None"
      from checkValidators_None [OF this] h show False by auto
    qed
    then obtain e where e: "checkValidators [] vals = Some e" by auto
    from checkValidators_error [OF e] e h
    show "?run = (Some InvalidValidatorPower, w) \<or> ?run = (Some DuplicateValidator, w)"
      by (auto simp: ExportGenesisFileWithTime_def ValidateAndComplete_def)
  qed
  have 5: "chainID \<noteq> [] \<and> (\<forall>u\<in>set vals. 0 < sint (Power u)) \<and> distinct (map PubKey vals) \<and>
       0 < clock w \<and>
       is_dir w (filepath_Dir genFile) \<and> \<not> is_dir w genFile \<and> genFile \<notin> readonly w \<longrightarrow>
      (\<exists>genDoc w'.
         ExportGenesisFileWithTime genFile chainID vals app 0 w = (None, w') \<and>
         files w' genFile = Some (GenesisDocJSON genDoc) \<and>
         GenesisTime genDoc \<noteq> 0 \<and> GenesisTime genDoc = tmtime_Now w \<and>
         clock w \<le> GenesisTime genDoc \<and>
         ChainID genDoc = chainID \<and> Validators genDoc = vals \<and> AppState genDoc = app)"
  proof
    assume h: "chainID \<noteq> [] \<and> (\<forall>u\<in>set vals. 0 < sint (Power u)) \<and> distinct (map PubKey vals) \<and>
       0 < clock w \<and>
       is_dir w (filepath_Dir genFile) \<and> \<not> is_dir w genFile \<and> genFile \<notin> readonly w"
    then have ok: "checkValidators [] vals = None"
      by (intro checkValidators_ok) simp_all
    let ?doc = "\<lparr> GenesisTime = tmtime_Now w, ChainID = chainID,
                   Validators = vals, AppState = app \<rparr>"
    have wr: "WriteFile genFile (GenesisDocJSON ?doc) w
        = (None, w\<lparr>files := (files w)(genFile \<mapsto> GenesisDocJSON ?doc)\<rparr>)"
      using h by (intro WriteFile_ok) simp_all
    have "ExportGenesisFileWithTime genFile chainID vals app 0 w
        = (None, w\<lparr>files := (files w)(genFile \<mapsto> GenesisDocJSON ?doc)\<rparr>)"
      using h ok wr
      by (simp add: ExportGenesisFileWithTime_def ValidateAndComplete_def GenesisDoc_SaveAs_def)
    moreover have "GenesisTime ?doc \<noteq> 0 \<and> clock w \<le> GenesisTime ?doc"
      using h by (simp add: tmtime_Now_def)
    ultimately show "\<exists>genDoc w'.
         ExportGenesisFileWithTime genFile chainID vals app 0 w = (None, w') \<and>
         files w' genFile = Some (GenesisDocJSON genDoc) \<and>
         GenesisTime genDoc \<noteq> 0 \<and> GenesisTime genDoc = tmtime_Now w \<and>
         clock w \<le> GenesisTime genDoc \<and>
         ChainID genDoc = chainID \<and> Validators genDoc = vals \<and> AppState genDoc = app"
      by (intro exI [of _ ?doc]
            exI [of _ "w\<lparr>files := (files w)(genFile \<mapsto> GenesisDocJSON ?doc)\<rparr>"]) simp
  qed
  from 1 2 3 4 5 show ?thesis by (intro conjI)
qed

theorem ExportGenesisFileWithTime_first_failing_check_witness:
  "ExportGenesisFileWithTime genesisFile0 [] [validatorZ] ''{}'' 0 fresh0
      = (Some EmptyChainID, fresh0)
   \<and> ExportGenesisFileWithTime genesisFile0 ''testnet-1'' [validatorA, validatorZ, validatorB]
        ''{}'' 0 fresh0 = (Some InvalidValidatorPower, fresh0)
   \<and> ExportGenesisFileWithTime genesisFile0 ''testnet-1'' [validatorA, validatorB, validatorZ]
        ''{}'' 0 fresh0 = (Some DuplicateValidator, fresh0)
   \<and> (\<exists>u\<in>set [validatorZ, validatorZ]. sint (Power u) \<le> 0)
   \<and> \<not> distinct (map PubKey [validatorZ, validatorZ])
   \<and> ExportGenesisFileWithTime genesisFile0 ''testnet-1'' [validatorZ, validatorZ]
        ''{}'' 0 fresh0 = (Some InvalidValidatorPower, fresh0)
   \<and> (\<exists>genDoc w'.
        ExportGenesisFileWithTime genesisFile0 ''testnet-1'' [validatorA] ''{}'' 0 fresh0
          = (None, w') \<and>
        files w' genesisFile0 = Some (GenesisDocJSON genDoc) \<and>
        GenesisTime genDoc = 1700000000 \<and> clock fresh0 \<le> GenesisTime genDoc \<and>
        ChainID genDoc = ''testnet-1'' \<and> Validators genDoc = [validatorA])"
proof -
  note main = ExportGenesisFileWithTime_first_failing_check
  have 1: "ExportGenesisFileWithTime genesisFile0 [] [validatorZ] ''{}'' 0 fresh0
      = (Some EmptyChainID, fresh0)"
    using main [of "[]" genesisFile0 "[validatorZ]" "''{}''" 0 fresh0, THEN conjunct1]
    by simp
  have 2: "ExportGenesisFileWithTime genesisFile0 ''testnet-1''
        [validatorA, validatorZ, validatorB] ''{}'' 0 fresh0 = (Some InvalidValidatorPower, fresh0)"
    using main [of "''testnet-1''" genesisFile0 "[validatorA, validatorZ, validatorB]" "''{}''" 0
        fresh0 "[validatorA]" validatorZ "[validatorB]", THEN conjunct2, THEN conjunct1]
    by (simp add: validatorA_def validatorZ_def)
  have 3: "ExportGenesisFileWithTime genesisFile0 ''testnet-1''
        [validatorA, validatorB, validatorZ] ''{}'' 0 fresh0 = (Some DuplicateValidator, fresh0)"
    using main [of "''testnet-1''" genesisFile0 "[validatorA, validatorB, validatorZ]" "''{}''" 0
        fresh0 "[validatorA]" validatorB "[validatorZ]",
        THEN conjunct2, THEN conjunct2, THEN conjunct1]
    by (simp add: validatorA_def validatorB_def)
  have h4: "\<exists>u\<in>set [validatorZ, validatorZ]. sint (Power u) \<le> 0"
    "\<not> distinct (map PubKey [validatorZ, validatorZ])"
    by (simp_all add: validatorZ_def)
  have "ExportGenesisFileWithTime genesisFile0 ''testnet-1'' [validatorZ, validatorZ]
        ''{}'' 0 fresh0 = (Some InvalidValidatorPower, fresh0) \<or>
      ExportGenesisFileWithTime genesisFile0 ''testnet-1'' [validatorZ, validatorZ]
        ''{}'' 0 fresh0 = (Some DuplicateValidator, fresh0)"
    using main [of "''testnet-1''" genesisFile0 "[validatorZ, validatorZ]" "''{}''" 0 fresh0,
        THEN conjunct2, THEN conjunct2, THEN conjunct2, THEN conjunct1] h4
    by simp
  moreover have "ExportGenesisFileWithTime genesisFile0 ''testnet-1'' [validatorZ, validatorZ]
        ''{}'' 0 fresh0 \<noteq> (Some DuplicateValidator, fresh0)"
    by (simp add: ExportGenesisFileWithTime_def ValidateAndComplete_def validatorZ_def)
  ultimately have 4: "ExportGenesisFileWithTime genesisFile0 ''testnet-1''
        [validatorZ, validatorZ] ''{}'' 0 fresh0 = (Some InvalidValidatorPower, fresh0)"
    by blast
  have 5: "\<exists>genDoc w'.
        ExportGenesisFileWithTime genesisFile0 ''testnet-1'' [validatorA] ''{}'' 0 fresh0
          = (None, w') \<and>
        files w' genesisFile0 = Some (GenesisDocJSON genDoc) \<and>
        GenesisTime genDoc = 1700000000 \<and> clock fresh0 \<le> GenesisTime genDoc \<and>
        ChainID genDoc = ''testnet-1'' \<and> Validators genDoc = [validatorA]"
  proof -
    have hyp: "''testnet-1'' \<noteq> [] \<and> (\<forall>v\<in>set [validatorA]. 0 < sint (Power v)) \<and>
        distinct (map PubKey [validatorA]) \<and> 0 < clock fresh0 \<and>
        is_dir fresh0 (filepath_Dir genesisFile0) \<and> \<not> is_dir fresh0 genesisFile0 \<and>
        genesisFile0 \<notin> readonly fresh0"
      by (simp add: validatorA_def genesisFile0_def fresh0_def is_dir_def filepath_Dir_def)
    have now: "tmtime_Now fresh0 = 1700000000"
      by (simp add: tmtime_Now_def fresh0_def)
    from main [of "''testnet-1''" genesisFile0 "[validatorA]" "''{}''" 0 fresh0,
        THEN conjunct2, THEN conjunct2, THEN conjunct2, THEN conjunct2] hyp
    obtain genDoc w' where
      "ExportGenesisFileWithTime genesisFile0 ''testnet-1'' [validatorA] ''{}'' 0 fresh0
          = (None, w')"
      "files w' genesisFile0 = Some (GenesisDocJSON genDoc)"
      "GenesisTime genDoc = tmtime_Now fresh0" "clock fresh0 \<le> GenesisTime genDoc"
      "ChainID genDoc = ''testnet-1''" "Validators genDoc = [validatorA]"
      by blast
    with now show ?thesis by auto
  qed
  from 1 2 3 h4 4 5 show ?thesis by (intro conjI)
qed

text \<open>
  C3 as stated promises \<open>InvalidValidatorPower\<close> whenever some validator has non-positive
  voting power. With a valid chain id and the validators \<open>validatorA\<close>, \<open>validatorB\<close>
  (same key as \<open>validatorA\<close>) and \<open>validatorZ\<close> (power 0), the repeated key is met first
  and the error is \<open>DuplicateValidator\<close>; with an empty chain id the error is
  \<open>EmptyChainID\<close> although the only validator has power 0.
\<close>

theorem nonpositive_power_reported_as_other_error_counterexample:
  "validatorZ \<in> set [validatorA, validatorB, validatorZ]
   \<and> sint (Power validatorZ) \<le> 0
   \<and> ExportGenesisFileWithTime genesisFile0 ''testnet-1'' [validatorA, validatorB, validatorZ]
        ''{}'' 0 fresh0 = (Some DuplicateValidator, fresh0)
   \<and> ExportGenesisFileWithTime genesisFile0 [] [validatorZ] ''{}'' 0 fresh0
        = (Some EmptyChainID, fresh0)"
  by (simp add: ExportGenesisFileWithTime_def ValidateAndComplete_def
      validatorA_def validatorB_def validatorZ_def)

text \<open>
  C4. Whenever genesis validation fails, \<open>ExportGenesisFile\<close> and
  \<open>ExportGenesisFileWithTime\<close> return the validation error and the world, the filesystem
  included, is exactly the one before the call: \<open>SaveAs\<close> is never reached. The proof
  uses only the early return of the two functions, not what validation checks.
\<close>

theorem export_genesis_validation_failure_writes_nothing:
  "(ValidateAndComplete genDoc w = Inl err \<longrightarrow>
      ExportGenesisFile genDoc genFile w = (Some err, w))
   \<and> (ValidateAndComplete \<lparr> GenesisTime = genTime, ChainID = chainID,
          Validators = validators, AppState = appState \<rparr> w = Inl err \<longrightarrow>
      ExportGenesisFileWithTime genFile chainID validators appState genTime w = (Some err, w))"
  by (simp add: ExportGenesisFile_def ExportGenesisFileWithTime_def)

theorem export_genesis_validation_failure_writes_nothing_witness:
  "ValidateAndComplete \<lparr> GenesisTime = 0, ChainID = [], Validators = [validatorA], AppState = ''{}'' \<rparr> fresh0
      = Inl EmptyChainID
   \<and> ExportGenesisFile \<lparr> GenesisTime = 0, ChainID = [], Validators = [validatorA], AppState = ''{}'' \<rparr>
        [''home'', ''config'', ''genesis.json''] fresh0 = (Some EmptyChainID, fresh0)
   \<and> ExportGenesisFileWithTime [''home'', ''config'', ''genesis.json''] [] [validatorA] ''{}'' 0 fresh0
        = (Some EmptyChainID, fresh0)"
proof -
  have v: "ValidateAndComplete \<lparr> GenesisTime = 0, ChainID = [], Validators = [validatorA], AppState = ''{}'' \<rparr> fresh0
      = Inl EmptyChainID"
    by (simp add: ValidateAndComplete_def)
  show ?thesis
    using v export_genesis_validation_failure_writes_nothing
      [of "\<lparr> GenesisTime = 0, ChainID = [], Validators = [validatorA], AppState = ''{}'' \<rparr>"
          fresh0 EmptyChainID "[''home'', ''config'', ''genesis.json'']" 0 "[]" "[validatorA]" "''{}''"]
    by simp
qed

subsection \<open>Identity provisioning\<close>

text \<open>
  C2. For every non-empty mnemonic that fails validation,
  \<open>InitializeNodeValidatorFilesFromMnemonic\<close> returns the invalid-mnemonic error and the
  world is unchanged: no file or directory is created or written.
\<close>

theorem invalid_mnemonic_aborts_without_writes:
  assumes "mnemonic \<noteq> []" and "\<not> IsMnemonicValid cr mnemonic"
  shows "InitializeNodeValidatorFilesFromMnemonic cr config mnemonic w = (Inl InvalidMnemonic, w)"
  using assms by (simp add: InitializeNodeValidatorFilesFromMnemonic_def)

theorem invalid_mnemonic_aborts_without_writes_witness:
  "''abandon abandon'' \<noteq> [] \<and> \<not> IsMnemonicValid crypto0 ''abandon abandon'' \<and>
   InitializeNodeValidatorFilesFromMnemonic crypto0 config0 ''abandon abandon'' fresh0
     = (Inl InvalidMnemonic, fresh0)"
proof -
  have a: "''abandon abandon'' \<noteq> []" by simp
  have b: "\<not> IsMnemonicValid crypto0 ''abandon abandon''"
    by (simp add: crypto0_def FromTmPubKeyInterface_def mnemonicA_def mnemonicB_def)
  show ?thesis
    using a b invalid_mnemonic_aborts_without_writes [OF a b, of config0 fresh0] by simp
qed

text \<open>The two paths of \<open>InitializeNodeValidatorFilesFromMnemonic\<close>, past the check of
  lines 61-63, and what each step of them does to the world.\<close>

lemma provision_empty_mnemonic:
  "InitializeNodeValidatorFilesFromMnemonic cr config [] w =
    (case LoadOrGenNodeKey (NodeKeyFile config) w of
       (Inl err, w1) \<Rightarrow> (Inl err, w1)
     | (Inr nodeKey, w1) \<Rightarrow>
    (case EnsureDir (filepath_Dir (PrivValidatorKeyFile config)) 511 w1 of
       (Some err, w2) \<Rightarrow> (Inl err, w2)
     | (None, w2) \<Rightarrow>
    (case EnsureDir (filepath_Dir (PrivValidatorStateFile config)) 511 w2 of
       (Some err, w3) \<Rightarrow> (Inl err, w3)
     | (None, w3) \<Rightarrow>
    (case LoadOrGenFilePV (PrivValidatorKeyFile config) (PrivValidatorStateFile config) w3 of
       (Inl err, w4) \<Rightarrow> (Inl err, w4)
     | (Inr filePV, w4) \<Rightarrow>
    (case FromTmPubKeyInterface cr (PrivKey_PubKey cr (Key_PrivKey filePV)) of
       Inl err \<Rightarrow> (Inl err, w4)
     | Inr valPubKey \<Rightarrow> (Inr (NodeKey_ID cr nodeKey, valPubKey), w4))))))"
  by (simp add: InitializeNodeValidatorFilesFromMnemonic_def FilePV_GetPubKey_def Let_def
      split: prod.splits option.splits sum.splits)

lemma provision_valid_mnemonic:
  "mnemonic \<noteq> [] \<Longrightarrow> IsMnemonicValid cr mnemonic \<Longrightarrow>
   InitializeNodeValidatorFilesFromMnemonic cr config mnemonic w =
    (case NodeKey_SaveAs (GenPrivKeyFromSecret cr mnemonic) (NodeKeyFile config) w of
       (Some err, w1) \<Rightarrow> (Inl err, w1)
     | (None, w1) \<Rightarrow>
    (case EnsureDir (filepath_Dir (PrivValidatorKeyFile config)) 511 w1 of
       (Some err, w2) \<Rightarrow> (Inl err, w2)
     | (None, w2) \<Rightarrow>
    (case EnsureDir (filepath_Dir (PrivValidatorStateFile config)) 511 w2 of
       (Some err, w3) \<Rightarrow> (Inl err, w3)
     | (None, w3) \<Rightarrow>
    (case FilePV_Save (NewFilePV (GenPrivKeyFromSecret cr mnemonic)
               (PrivValidatorKeyFile config) (PrivValidatorStateFile config)) w3 of
       (Some err, w4) \<Rightarrow> (Inl err, w4)
     | (None, w4) \<Rightarrow>
    (case FromTmPubKeyInterface cr (PrivKey_PubKey cr (GenPrivKeyFromSecret cr mnemonic)) of
       Inl err \<Rightarrow> (Inl err, w4)
     | Inr valPubKey \<Rightarrow>
         (Inr (NodeKey_ID cr (GenPrivKeyFromSecret cr mnemonic), valPubKey), w4))))))"
  by (simp add: InitializeNodeValidatorFilesFromMnemonic_def FilePV_GetPubKey_def NewFilePV_def
      Let_def split: prod.splits option.splits sum.splits)

lemma EnsureDir_frame:
  "EnsureDir dir mode w = (r, w') \<Longrightarrow>
     files w' = files w \<and> readonly w' = readonly w \<and> umask w' = umask w \<and>
     entropy w' = entropy w \<and> clock w' = clock w"
  unfolding EnsureDir_def by (rule MkdirAll_frame)

lemma EnsureDir_noop: "is_dir w dir \<Longrightarrow> EnsureDir dir mode w = (None, w)"
  by (simp add: EnsureDir_def MkdirAll.simps [of dir mode w])

lemma LoadNodeKey_Inr: "(LoadNodeKey p w = Inr k) = (files w p = Some (NodeKeyJSON k))"
  by (auto simp: LoadNodeKey_def ReadFile_def split: option.splits content.splits)

lemma LoadOrGenNodeKey_exists:
  "files w p \<noteq> None \<Longrightarrow> LoadOrGenNodeKey p w = (LoadNodeKey p w, w)"
  by (simp add: LoadOrGenNodeKey_def FileExists_def)

lemma LoadOrGenNodeKey_generated:
  "files w p = None \<Longrightarrow> LoadOrGenNodeKey p w = (Inr k, w') \<Longrightarrow>
     \<exists>ks. entropy w = k # ks \<and> w' = w\<lparr>entropy := ks, files := (files w)(p \<mapsto> NodeKeyJSON k)\<rparr>"
  by (auto simp: LoadOrGenNodeKey_def FileExists_def GenPrivKey_def NodeKey_SaveAs_def
      WriteFile_def is_dir_def split: list.splits if_splits)

lemma LoadOrGenNodeKey_frame:
  "LoadOrGenNodeKey p w = (r, w') \<Longrightarrow>
     dirs w' = dirs w \<and> readonly w' = readonly w \<and> umask w' = umask w \<and>
     clock w' = clock w \<and> (\<forall>q. q \<noteq> p \<longrightarrow> files w' q = files w q)"
  by (auto simp: LoadOrGenNodeKey_def FileExists_def GenPrivKey_def NodeKey_SaveAs_def
      WriteFile_def split: list.splits if_splits)

lemma LoadFilePV_Inr:
  "LoadFilePV kp sp w = Inr pv \<Longrightarrow>
     files w kp = Some (FilePVKeyJSON (Key_PrivKey pv)) \<and>
     files w sp = Some (FilePVLastSignStateJSON (LastSignState pv))"
  by (auto simp: LoadFilePV_def ReadFile_def split: option.splits content.splits)

lemma LoadFilePV_ok:
  "files w kp = Some (FilePVKeyJSON k) \<Longrightarrow> files w sp = Some (FilePVLastSignStateJSON st) \<Longrightarrow>
     LoadFilePV kp sp w = Inr \<lparr> Key_PrivKey = k, Key_filePath = kp,
                                LastSignState = st, LastSignState_filePath = sp \<rparr>"
  by (simp add: LoadFilePV_def ReadFile_def)

lemma LoadOrGenFilePV_exists:
  "files w kp \<noteq> None \<Longrightarrow> LoadOrGenFilePV kp sp w = (LoadFilePV kp sp w, w)"
  by (simp add: LoadOrGenFilePV_def FileExists_def)

lemma FilePV_Save_frame:
  "FilePV_Save pv w = (r, w') \<Longrightarrow>
     dirs w' = dirs w \<and> readonly w' = readonly w \<and> umask w' = umask w \<and>
     entropy w' = entropy w \<and> clock w' = clock w \<and>
     (\<forall>q. q \<noteq> Key_filePath pv \<and> q \<noteq> LastSignState_filePath pv \<longrightarrow> files w' q = files w q)"
  by (auto simp: FilePV_Save_def WriteFile_def split: if_splits)

lemma FilePV_Save_None:
  "FilePV_Save pv w = (None, w') \<Longrightarrow>
     w' = w\<lparr>files := (files w)(Key_filePath pv \<mapsto> FilePVKeyJSON (Key_PrivKey pv),
               LastSignState_filePath pv \<mapsto> FilePVLastSignStateJSON (LastSignState pv))\<rparr>"
  by (auto simp: FilePV_Save_def WriteFile_def split: if_splits)

lemma FilePV_Save_ok:
  "is_dir w (filepath_Dir kp) \<Longrightarrow> \<not> is_dir w kp \<Longrightarrow> kp \<notin> readonly w \<Longrightarrow>
   is_dir w (filepath_Dir sp) \<Longrightarrow> \<not> is_dir w sp \<Longrightarrow> sp \<notin> readonly w \<Longrightarrow>
   FilePV_Save (NewFilePV k kp sp) w =
     (None, w\<lparr>files := (files w)(kp \<mapsto> FilePVKeyJSON k,
        sp \<mapsto> FilePVLastSignStateJSON (LastSignState (NewFilePV k kp sp)))\<rparr>)"
  by (simp add: FilePV_Save_def WriteFile_def NewFilePV_def is_dir_def)

lemma LoadOrGenFilePV_generated:
  "files w kp = None \<Longrightarrow> LoadOrGenFilePV kp sp w = (Inr pv, w') \<Longrightarrow>
     \<exists>k ks. entropy w = k # ks \<and> pv = NewFilePV k kp sp \<and>
       w' = w\<lparr>entropy := ks,
              files := (files w)(kp \<mapsto> FilePVKeyJSON k,
                sp \<mapsto> FilePVLastSignStateJSON (LastSignState (NewFilePV k kp sp)))\<rparr>"
  by (auto simp: LoadOrGenFilePV_def FileExists_def GenPrivKey_def FilePV_Save_def NewFilePV_def
      WriteFile_def is_dir_def Let_def split: list.splits if_splits)

lemma LoadOrGenFilePV_frame:
  "LoadOrGenFilePV kp sp w = (r, w') \<Longrightarrow>
     dirs w' = dirs w \<and> readonly w' = readonly w \<and> umask w' = umask w \<and>
     clock w' = clock w \<and> (\<forall>q. q \<noteq> kp \<and> q \<noteq> sp \<longrightarrow> files w' q = files w q)"
  by (auto simp: LoadOrGenFilePV_def FileExists_def GenPrivKey_def FilePV_Save_def NewFilePV_def
      WriteFile_def Let_def split: list.splits if_splits)

lemma config0_paths:
  "NodeKeyFile config0 \<noteq> PrivValidatorKeyFile config0"
  "NodeKeyFile config0 \<noteq> PrivValidatorStateFile config0"
  "PrivValidatorKeyFile config0 \<noteq> PrivValidatorStateFile config0"
  by (simp_all add: config0_def)

lemma mnemonicA_valid: "mnemonicA \<noteq> [] \<and> IsMnemonicValid crypto0 mnemonicA"
  by (simp add: crypto0_def FromTmPubKeyInterface_def mnemonicA_def)

lemma is_dir_files_update [simp]: "is_dir (w\<lparr>files := f\<rparr>) p = is_dir w p"
  by (simp add: is_dir_def)

lemma is_dir_entropy_update [simp]: "is_dir (w\<lparr>entropy := e\<rparr>) p = is_dir w p"
  by (simp add: is_dir_def)

lemma initialized0_layout:
  "is_dir initialized0 (filepath_Dir (NodeKeyFile config0))"
  "is_dir initialized0 (filepath_Dir (PrivValidatorKeyFile config0))"
  "is_dir initialized0 (filepath_Dir (PrivValidatorStateFile config0))"
  "\<not> is_dir initialized0 (NodeKeyFile config0)"
  "\<not> is_dir initialized0 (PrivValidatorKeyFile config0)"
  "\<not> is_dir initialized0 (PrivValidatorStateFile config0)"
  "readonly initialized0 = {}"
  by (simp_all add: is_dir_def filepath_Dir_def initialized0_def config0_def)

lemma initialized0_run_mnemonicA:
  "InitializeNodeValidatorFilesFromMnemonic crypto0 config0 mnemonicA initialized0 =
    (Inr (''id/pub/priv/'' @ mnemonicA, ''pub/priv/'' @ mnemonicA),
     initialized0\<lparr>files := (files initialized0)
       (NodeKeyFile config0 \<mapsto> NodeKeyJSON (''priv/'' @ mnemonicA),
        PrivValidatorKeyFile config0 \<mapsto> FilePVKeyJSON (''priv/'' @ mnemonicA),
        PrivValidatorStateFile config0 \<mapsto> FilePVLastSignStateJSON
          \<lparr> Height = 0, Round = 0, Step = 0, Signature = [], SignBytes = [] \<rparr>)\<rparr>)"
proof -
  let ?k = "''priv/'' @ mnemonicA"
  let ?w1 = "initialized0\<lparr>files := (files initialized0)(NodeKeyFile config0 \<mapsto> NodeKeyJSON ?k)\<rparr>"
  note d = initialized0_layout
  have k: "GenPrivKeyFromSecret crypto0 mnemonicA = ?k"
    by (simp add: crypto0_def FromTmPubKeyInterface_def)
  have s1: "NodeKey_SaveAs ?k (NodeKeyFile config0) initialized0 = (None, ?w1)"
    using d by (simp add: NodeKey_SaveAs_def WriteFile_ok)
  have s2: "EnsureDir (filepath_Dir (PrivValidatorKeyFile config0)) 511 ?w1 = (None, ?w1)"
    using d by (simp add: EnsureDir_noop)
  have s3: "EnsureDir (filepath_Dir (PrivValidatorStateFile config0)) 511 ?w1 = (None, ?w1)"
    using d by (simp add: EnsureDir_noop)
  have s4: "FilePV_Save (NewFilePV ?k (PrivValidatorKeyFile config0)
                (PrivValidatorStateFile config0)) ?w1
      = (None, ?w1\<lparr>files := (files ?w1)
           (PrivValidatorKeyFile config0 \<mapsto> FilePVKeyJSON ?k,
            PrivValidatorStateFile config0 \<mapsto> FilePVLastSignStateJSON
              \<lparr> Height = 0, Round = 0, Step = 0, Signature = [], SignBytes = [] \<rparr>)\<rparr>)"
    using d FilePV_Save_ok [of ?w1 "PrivValidatorKeyFile config0" "PrivValidatorStateFile config0" ?k]
    by (simp add: NewFilePV_def stepNone_def)
  have s5: "FromTmPubKeyInterface crypto0 (PrivKey_PubKey crypto0 ?k) = Inr (''pub/priv/'' @ mnemonicA)"
    "NodeKey_ID crypto0 ?k = ''id/pub/priv/'' @ mnemonicA"
    by (simp_all add: crypto0_def FromTmPubKeyInterface_def NodeKey_ID_def)
  have "InitializeNodeValidatorFilesFromMnemonic crypto0 config0 mnemonicA initialized0 =
      (Inr (''id/pub/priv/'' @ mnemonicA, ''pub/priv/'' @ mnemonicA),
       ?w1\<lparr>files := (files ?w1)
           (PrivValidatorKeyFile config0 \<mapsto> FilePVKeyJSON ?k,
            PrivValidatorStateFile config0 \<mapsto> FilePVLastSignStateJSON
              \<lparr> Height = 0, Round = 0, Step = 0, Signature = [], SignBytes = [] \<rparr>)\<rparr>)"
    by (simp only: provision_valid_mnemonic [OF mnemonicA_valid [THEN conjunct1]
          mnemonicA_valid [THEN conjunct2]] k s1 s2 s3 s4 s5 prod.case option.case sum.case)
  then show ?thesis by simp
qed

subsection \<open>Provisioning an initialised node\<close>

lemma provision_existing_keys_empty_mnemonic:
  assumes nk: "files w (NodeKeyFile config) \<noteq> None"
    and pvk: "files w (PrivValidatorKeyFile config) \<noteq> None"
  shows "InitializeNodeValidatorFilesFromMnemonic cr config [] w =
           (case LoadNodeKey (NodeKeyFile config) w of
              Inl err \<Rightarrow> (Inl err, w)
            | Inr nodeKey \<Rightarrow>
           (case EnsureDir (filepath_Dir (PrivValidatorKeyFile config)) 511 w of
              (Some err, w2) \<Rightarrow> (Inl err, w2)
            | (None, w2) \<Rightarrow>
           (case EnsureDir (filepath_Dir (PrivValidatorStateFile config)) 511 w2 of
              (Some err, w3) \<Rightarrow> (Inl err, w3)
            | (None, w3) \<Rightarrow>
           (case LoadFilePV (PrivValidatorKeyFile config) (PrivValidatorStateFile config) w3 of
              Inl err \<Rightarrow> (Inl err, w3)
            | Inr filePV \<Rightarrow>
           (case FromTmPubKeyInterface cr (PrivKey_PubKey cr (Key_PrivKey filePV)) of
              Inl err \<Rightarrow> (Inl err, w3)
            | Inr valPubKey \<Rightarrow> (Inr (NodeKey_ID cr nodeKey, valPubKey), w3))))))
         \<and> files (snd (InitializeNodeValidatorFilesFromMnemonic cr config [] w)) = files w"
proof -
  let ?d1 = "filepath_Dir (PrivValidatorKeyFile config)"
  let ?d2 = "filepath_Dir (PrivValidatorStateFile config)"
  obtain r2 w2 where e1: "EnsureDir ?d1 511 w = (r2, w2)"
    by (cases "EnsureDir ?d1 511 w")
  obtain r3 w3 where e2: "EnsureDir ?d2 511 w2 = (r3, w3)"
    by (cases "EnsureDir ?d2 511 w2")
  have f2: "files w2 = files w" using EnsureDir_frame [OF e1] by simp
  have f3: "files w3 = files w" using EnsureDir_frame [OF e2] f2 by simp
  have l: "LoadOrGenFilePV (PrivValidatorKeyFile config) (PrivValidatorStateFile config) w3
      = (LoadFilePV (PrivValidatorKeyFile config) (PrivValidatorStateFile config) w3, w3)"
    using pvk f3 by (simp add: LoadOrGenFilePV_exists)
  have eq: "InitializeNodeValidatorFilesFromMnemonic cr config [] w =
           (case LoadNodeKey (NodeKeyFile config) w of
              Inl err \<Rightarrow> (Inl err, w)
            | Inr nodeKey \<Rightarrow>
           (case EnsureDir (filepath_Dir (PrivValidatorKeyFile config)) 511 w of
              (Some err, w2) \<Rightarrow> (Inl err, w2)
            | (None, w2) \<Rightarrow>
           (case EnsureDir (filepath_Dir (PrivValidatorStateFile config)) 511 w2 of
              (Some err, w3) \<Rightarrow> (Inl err, w3)
            | (None, w3) \<Rightarrow>
           (case LoadFilePV (PrivValidatorKeyFile config) (PrivValidatorStateFile config) w3 of
              Inl err \<Rightarrow> (Inl err, w3)
            | Inr filePV \<Rightarrow>
           (case FromTmPubKeyInterface cr (PrivKey_PubKey cr (Key_PrivKey filePV)) of
              Inl err \<Rightarrow> (Inl err, w3)
            | Inr valPubKey \<Rightarrow> (Inr (NodeKey_ID cr nodeKey, valPubKey), w3))))))"
    using l by (simp add: provision_empty_mnemonic LoadOrGenNodeKey_exists [OF nk] e1 e2
        split: sum.splits option.splits)
  have "files (snd (InitializeNodeValidatorFilesFromMnemonic cr config [] w)) = files w"
    unfolding eq using f2 f3 by (simp add: e1 e2 split: sum.splits option.splits)
  with eq show ?thesis by (rule conjI)
qed

text \<open>
  C1, as the code has it. When the node-key file and the validator-key file exist and the
  call is made with the empty mnemonic, no file is changed, whatever the outcome; when
  the two key files and the signing-state file parse, their directories exist and the
  codec accepts the public key, the call returns the identifiers of the keys loaded from
  those files and leaves the whole world unchanged.
\<close>

theorem existing_identity_kept_without_mnemonic:
  assumes "files w (NodeKeyFile config) \<noteq> None"
    and "files w (PrivValidatorKeyFile config) \<noteq> None"
  shows "files (snd (InitializeNodeValidatorFilesFromMnemonic cr config [] w)) = files w
     \<and> (files w (NodeKeyFile config) = Some (NodeKeyJSON nodeKey) \<and>
        files w (PrivValidatorKeyFile config) = Some (FilePVKeyJSON valKey) \<and>
        files w (PrivValidatorStateFile config) = Some (FilePVLastSignStateJSON st) \<and>
        is_dir w (filepath_Dir (PrivValidatorKeyFile config)) \<and>
        is_dir w (filepath_Dir (PrivValidatorStateFile config)) \<and>
        FromTmPubKeyInterface cr (PrivKey_PubKey cr valKey) = Inr valPubKey \<longrightarrow>
        InitializeNodeValidatorFilesFromMnemonic cr config [] w
          = (Inr (NodeKey_ID cr nodeKey, valPubKey), w))"
proof (intro conjI impI)
  show "files (snd (InitializeNodeValidatorFilesFromMnemonic cr config [] w)) = files w"
    using provision_existing_keys_empty_mnemonic [OF assms, of cr] by (rule conjunct2)
next
  assume h: "files w (NodeKeyFile config) = Some (NodeKeyJSON nodeKey) \<and>
        files w (PrivValidatorKeyFile config) = Some (FilePVKeyJSON valKey) \<and>
        files w (PrivValidatorStateFile config) = Some (FilePVLastSignStateJSON st) \<and>
        is_dir w (filepath_Dir (PrivValidatorKeyFile config)) \<and>
        is_dir w (filepath_Dir (PrivValidatorStateFile config)) \<and>
        FromTmPubKeyInterface cr (PrivKey_PubKey cr valKey) = Inr valPubKey"
  have a: "LoadNodeKey (NodeKeyFile config) w = Inr nodeKey"
    using h by (simp add: LoadNodeKey_Inr)
  have b: "LoadFilePV (PrivValidatorKeyFile config) (PrivValidatorStateFile config) w
      = Inr \<lparr> Key_PrivKey = valKey, Key_filePath = PrivValidatorKeyFile config,
              LastSignState = st, LastSignState_filePath = PrivValidatorStateFile config \<rparr>"
    using h by (simp add: LoadFilePV_ok)
  from provision_existing_keys_empty_mnemonic [OF assms, of cr, THEN conjunct1]
  show "InitializeNodeValidatorFilesFromMnemonic cr config [] w
          = (Inr (NodeKey_ID cr nodeKey, valPubKey), w)"
    using h by (simp add: a b EnsureDir_noop)
qed

theorem existing_identity_kept_without_mnemonic_witness:
  "files initialized0 (NodeKeyFile config0) \<noteq> None
   \<and> files initialized0 (PrivValidatorKeyFile config0) \<noteq> None
   \<and> files (snd (InitializeNodeValidatorFilesFromMnemonic crypto0 config0 [] initialized0))
       = files initialized0
   \<and> InitializeNodeValidatorFilesFromMnemonic crypto0 config0 [] initialized0
       = (Inr (''id/pub/node key on disk'', ''pub/validator key on disk''), initialized0)"
proof -
  have a: "files initialized0 (NodeKeyFile config0) \<noteq> None"
    and b: "files initialized0 (PrivValidatorKeyFile config0) \<noteq> None"
    using config0_paths by (simp_all add: initialized0_def)
  have c: "files initialized0 (NodeKeyFile config0) = Some (NodeKeyJSON ''node key on disk'') \<and>
        files initialized0 (PrivValidatorKeyFile config0) = Some (FilePVKeyJSON ''validator key on disk'') \<and>
        files initialized0 (PrivValidatorStateFile config0) = Some (FilePVLastSignStateJSON signedState) \<and>
        is_dir initialized0 (filepath_Dir (PrivValidatorKeyFile config0)) \<and>
        is_dir initialized0 (filepath_Dir (PrivValidatorStateFile config0)) \<and>
        FromTmPubKeyInterface crypto0 (PrivKey_PubKey crypto0 ''validator key on disk'')
          = Inr ''pub/validator key on disk''"
    using config0_paths initialized0_layout
    by (simp add: initialized0_def crypto0_def FromTmPubKeyInterface_def)
  have d: "NodeKey_ID crypto0 ''node key on disk'' = ''id/pub/node key on disk''"
    by (simp add: NodeKey_ID_def crypto0_def FromTmPubKeyInterface_def)
  from existing_identity_kept_without_mnemonic [OF a b, of crypto0 "''node key on disk''"
      "''validator key on disk''" signedState "''pub/validator key on disk''"] a b c d
  show ?thesis by simp
qed

text \<open>
  C1 as stated also covers a call with a valid mnemonic. On a node whose three files
  exist, such a call takes the \<open>else\<close> branches of lines 71-79 and 96-100: it derives the
  key from the mnemonic and saves it over both key files, and it returns the identifiers
  of the derived key, not those of the keys that were on disk.
\<close>

theorem existing_key_files_overwritten_counterexample:
  "files initialized0 (NodeKeyFile config0) = Some (NodeKeyJSON ''node key on disk'')
   \<and> files initialized0 (PrivValidatorKeyFile config0)
       = Some (FilePVKeyJSON ''validator key on disk'')
   \<and> IsMnemonicValid crypto0 mnemonicA
   \<and> fst (InitializeNodeValidatorFilesFromMnemonic crypto0 config0 mnemonicA initialized0)
       = Inr (''id/pub/priv/'' @ mnemonicA, ''pub/priv/'' @ mnemonicA)
   \<and> fst (InitializeNodeValidatorFilesFromMnemonic crypto0 config0 mnemonicA initialized0)
       \<noteq> Inr (NodeKey_ID crypto0 ''node key on disk'',
               PrivKey_PubKey crypto0 ''validator key on disk'')
   \<and> files (snd (InitializeNodeValidatorFilesFromMnemonic crypto0 config0 mnemonicA initialized0))
        (NodeKeyFile config0) = Some (NodeKeyJSON (''priv/'' @ mnemonicA))
   \<and> files (snd (InitializeNodeValidatorFilesFromMnemonic crypto0 config0 mnemonicA initialized0))
        (PrivValidatorKeyFile config0) = Some (FilePVKeyJSON (''priv/'' @ mnemonicA))"
  using config0_paths mnemonicA_valid
  by (simp add: initialized0_run_mnemonicA)
     (simp add: initialized0_def crypto0_def FromTmPubKeyInterface_def NodeKey_ID_def)

lemma provision_empty_staged:
  assumes "LoadOrGenNodeKey (NodeKeyFile config) w = (r1, w1)"
    and "EnsureDir (filepath_Dir (PrivValidatorKeyFile config)) 511 w1 = (r2, w2)"
    and "EnsureDir (filepath_Dir (PrivValidatorStateFile config)) 511 w2 = (r3, w3)"
    and "LoadOrGenFilePV (PrivValidatorKeyFile config) (PrivValidatorStateFile config) w3
           = (r4, w4)"
  shows "InitializeNodeValidatorFilesFromMnemonic cr config [] w =
    (case r1 of Inl err \<Rightarrow> (Inl err, w1) | Inr nodeKey \<Rightarrow>
    (case r2 of Some err \<Rightarrow> (Inl err, w2) | None \<Rightarrow>
    (case r3 of Some err \<Rightarrow> (Inl err, w3) | None \<Rightarrow>
    (case r4 of Inl err \<Rightarrow> (Inl err, w4) | Inr filePV \<Rightarrow>
    (case FromTmPubKeyInterface cr (PrivKey_PubKey cr (Key_PrivKey filePV)) of
       Inl err \<Rightarrow> (Inl err, w4)
     | Inr valPubKey \<Rightarrow> (Inr (NodeKey_ID cr nodeKey, valPubKey), w4))))))"
  using assms
  by (simp add: provision_empty_mnemonic split: sum.splits option.splits)

lemma provision_mnemonic_staged:
  assumes "mnemonic \<noteq> []" and "IsMnemonicValid cr mnemonic"
    and "NodeKey_SaveAs (GenPrivKeyFromSecret cr mnemonic) (NodeKeyFile config) w = (r1, w1)"
    and "EnsureDir (filepath_Dir (PrivValidatorKeyFile config)) 511 w1 = (r2, w2)"
    and "EnsureDir (filepath_Dir (PrivValidatorStateFile config)) 511 w2 = (r3, w3)"
    and "FilePV_Save (NewFilePV (GenPrivKeyFromSecret cr mnemonic)
               (PrivValidatorKeyFile config) (PrivValidatorStateFile config)) w3 = (r4, w4)"
  shows "InitializeNodeValidatorFilesFromMnemonic cr config mnemonic w =
    (case r1 of Some err \<Rightarrow> (Inl err, w1) | None \<Rightarrow>
    (case r2 of Some err \<Rightarrow> (Inl err, w2) | None \<Rightarrow>
    (case r3 of Some err \<Rightarrow> (Inl err, w3) | None \<Rightarrow>
    (case r4 of Some err \<Rightarrow> (Inl err, w4) | None \<Rightarrow>
    (case FromTmPubKeyInterface cr (PrivKey_PubKey cr (GenPrivKeyFromSecret cr mnemonic)) of
       Inl err \<Rightarrow> (Inl err, w4)
     | Inr valPubKey \<Rightarrow>
         (Inr (NodeKey_ID cr (GenPrivKeyFromSecret cr mnemonic), valPubKey), w4))))))"
  using assms
  by (simp add: provision_valid_mnemonic split: sum.splits option.splits)

lemma provision_empty_success:
  assumes "InitializeNodeValidatorFilesFromMnemonic cr config [] w = (Inr (nodeID, valPubKey), w')"
  obtains nodeKey w1 w2 w3 filePV where
    "LoadOrGenNodeKey (NodeKeyFile config) w = (Inr nodeKey, w1)"
    "EnsureDir (filepath_Dir (PrivValidatorKeyFile config)) 511 w1 = (None, w2)"
    "EnsureDir (filepath_Dir (PrivValidatorStateFile config)) 511 w2 = (None, w3)"
    "LoadOrGenFilePV (PrivValidatorKeyFile config) (PrivValidatorStateFile config) w3
       = (Inr filePV, w')"
    "FromTmPubKeyInterface cr (PrivKey_PubKey cr (Key_PrivKey filePV)) = Inr valPubKey"
    "nodeID = NodeKey_ID cr nodeKey"
proof -
  obtain r1 w1 where s1: "LoadOrGenNodeKey (NodeKeyFile config) w = (r1, w1)"
    by (cases "LoadOrGenNodeKey (NodeKeyFile config) w")
  obtain r2 w2 where s2: "EnsureDir (filepath_Dir (PrivValidatorKeyFile config)) 511 w1 = (r2, w2)"
    by (cases "EnsureDir (filepath_Dir (PrivValidatorKeyFile config)) 511 w1")
  obtain r3 w3 where s3: "EnsureDir (filepath_Dir (PrivValidatorStateFile config)) 511 w2 = (r3, w3)"
    by (cases "EnsureDir (filepath_Dir (PrivValidatorStateFile config)) 511 w2")
  obtain r4 w4 where s4:
    "LoadOrGenFilePV (PrivValidatorKeyFile config) (PrivValidatorStateFile config) w3 = (r4, w4)"
    by (cases "LoadOrGenFilePV (PrivValidatorKeyFile config) (PrivValidatorStateFile config) w3")
  from assms provision_empty_staged [OF s1 s2 s3 s4, of cr]
  have "\<exists>nodeKey filePV. r1 = Inr nodeKey \<and> r2 = None \<and> r3 = None \<and> r4 = Inr filePV \<and> w4 = w' \<and>
      FromTmPubKeyInterface cr (PrivKey_PubKey cr (Key_PrivKey filePV)) = Inr valPubKey \<and>
      nodeID = NodeKey_ID cr nodeKey"
    by (auto split: sum.splits option.splits)
  with s1 s2 s3 s4 that show thesis by blast
qed

lemma provision_mnemonic_success:
  assumes "mnemonic \<noteq> []" and "IsMnemonicValid cr mnemonic"
    and "InitializeNodeValidatorFilesFromMnemonic cr config mnemonic w
           = (Inr (nodeID, valPubKey), w')"
  obtains w1 w2 w3 where
    "NodeKey_SaveAs (GenPrivKeyFromSecret cr mnemonic) (NodeKeyFile config) w = (None, w1)"
    "EnsureDir (filepath_Dir (PrivValidatorKeyFile config)) 511 w1 = (None, w2)"
    "EnsureDir (filepath_Dir (PrivValidatorStateFile config)) 511 w2 = (None, w3)"
    "FilePV_Save (NewFilePV (GenPrivKeyFromSecret cr mnemonic)
               (PrivValidatorKeyFile config) (PrivValidatorStateFile config)) w3 = (None, w')"
    "FromTmPubKeyInterface cr (PrivKey_PubKey cr (GenPrivKeyFromSecret cr mnemonic))
       = Inr valPubKey"
    "nodeID = NodeKey_ID cr (GenPrivKeyFromSecret cr mnemonic)"
proof -
  let ?k = "GenPrivKeyFromSecret cr mnemonic"
  obtain r1 w1 where s1: "NodeKey_SaveAs ?k (NodeKeyFile config) w = (r1, w1)"
    by (cases "NodeKey_SaveAs ?k (NodeKeyFile config) w")
  obtain r2 w2 where s2: "EnsureDir (filepath_Dir (PrivValidatorKeyFile config)) 511 w1 = (r2, w2)"
    by (cases "EnsureDir (filepath_Dir (PrivValidatorKeyFile config)) 511 w1")
  obtain r3 w3 where s3: "EnsureDir (filepath_Dir (PrivValidatorStateFile config)) 511 w2 = (r3, w3)"
    by (cases "EnsureDir (filepath_Dir (PrivValidatorStateFile config)) 511 w2")
  obtain r4 w4 where s4:
    "FilePV_Save (NewFilePV ?k (PrivValidatorKeyFile config) (PrivValidatorStateFile config)) w3
       = (r4, w4)"
    by (cases "FilePV_Save (NewFilePV ?k (PrivValidatorKeyFile config)
                 (PrivValidatorStateFile config)) w3")
  from assms(3) provision_mnemonic_staged [OF assms(1,2) s1 s2 s3 s4]
  have "r1 = None \<and> r2 = None \<and> r3 = None \<and> r4 = None \<and> w4 = w' \<and>
      FromTmPubKeyInterface cr (PrivKey_PubKey cr ?k) = Inr valPubKey \<and>
      nodeID = NodeKey_ID cr ?k"
    by (auto split: sum.splits option.splits)
  with s1 s2 s3 s4 that show thesis by blast
qed

lemma provision_mnemonic_succeeds:
  assumes m: "mnemonic \<noteq> []" "IsMnemonicValid cr mnemonic"
    and nk: "is_dir w (filepath_Dir (NodeKeyFile config))" "\<not> is_dir w (NodeKeyFile config)"
      "NodeKeyFile config \<notin> readonly w"
    and pvk: "is_dir w (filepath_Dir (PrivValidatorKeyFile config))"
      "\<not> is_dir w (PrivValidatorKeyFile config)" "PrivValidatorKeyFile config \<notin> readonly w"
    and pvs: "is_dir w (filepath_Dir (PrivValidatorStateFile config))"
      "\<not> is_dir w (PrivValidatorStateFile config)" "PrivValidatorStateFile config \<notin> readonly w"
    and codec: "FromTmPubKeyInterface cr (PrivKey_PubKey cr (GenPrivKeyFromSecret cr mnemonic))
      = Inr valPubKey"
  shows "InitializeNodeValidatorFilesFromMnemonic cr config mnemonic w =
    (Inr (NodeKey_ID cr (GenPrivKeyFromSecret cr mnemonic), valPubKey),
     w\<lparr>files := (files w)
       (NodeKeyFile config \<mapsto> NodeKeyJSON (GenPrivKeyFromSecret cr mnemonic),
        PrivValidatorKeyFile config \<mapsto> FilePVKeyJSON (GenPrivKeyFromSecret cr mnemonic),
        PrivValidatorStateFile config \<mapsto> FilePVLastSignStateJSON
          \<lparr> Height = 0, Round = 0, Step = stepNone, Signature = [], SignBytes = [] \<rparr>)\<rparr>)"
proof -
  let ?k = "GenPrivKeyFromSecret cr mnemonic"
  let ?w1 = "w\<lparr>files := (files w)(NodeKeyFile config \<mapsto> NodeKeyJSON ?k)\<rparr>"
  have s1: "NodeKey_SaveAs ?k (NodeKeyFile config) w = (None, ?w1)"
    using nk by (simp add: NodeKey_SaveAs_def WriteFile_ok)
  have s2: "EnsureDir (filepath_Dir (PrivValidatorKeyFile config)) 511 ?w1 = (None, ?w1)"
    using pvk by (simp add: EnsureDir_noop)
  have s3: "EnsureDir (filepath_Dir (PrivValidatorStateFile config)) 511 ?w1 = (None, ?w1)"
    using pvs by (simp add: EnsureDir_noop)
  have s4: "FilePV_Save (NewFilePV ?k (PrivValidatorKeyFile config)
                (PrivValidatorStateFile config)) ?w1
      = (None, ?w1\<lparr>files := (files ?w1)
           (PrivValidatorKeyFile config \<mapsto> FilePVKeyJSON ?k,
            PrivValidatorStateFile config \<mapsto> FilePVLastSignStateJSON
              \<lparr> Height = 0, Round = 0, Step = stepNone, Signature = [], SignBytes = [] \<rparr>)\<rparr>)"
    using pvk pvs
      FilePV_Save_ok [of ?w1 "PrivValidatorKeyFile config" "PrivValidatorStateFile config" ?k]
    by (simp add: NewFilePV_def)
  show ?thesis
    using provision_mnemonic_staged [OF m s1 s2 s3 s4] codec by simp
qed

lemma LoadOrGenNodeKey_generates:
  "files w p = None \<Longrightarrow> entropy w = k # ks \<Longrightarrow>
   is_dir w (filepath_Dir p) \<Longrightarrow> \<not> is_dir w p \<Longrightarrow> p \<notin> readonly w \<Longrightarrow>
   LoadOrGenNodeKey p w = (Inr k, w\<lparr>entropy := ks, files := (files w)(p \<mapsto> NodeKeyJSON k)\<rparr>)"
  by (simp add: LoadOrGenNodeKey_def FileExists_def GenPrivKey_def NodeKey_SaveAs_def
      WriteFile_def is_dir_def)

lemma LoadOrGenFilePV_generates:
  "files w kp = None \<Longrightarrow> entropy w = k # ks \<Longrightarrow>
   is_dir w (filepath_Dir kp) \<Longrightarrow> \<not> is_dir w kp \<Longrightarrow> kp \<notin> readonly w \<Longrightarrow>
   is_dir w (filepath_Dir sp) \<Longrightarrow> \<not> is_dir w sp \<Longrightarrow> sp \<notin> readonly w \<Longrightarrow>
   LoadOrGenFilePV kp sp w =
     (Inr (NewFilePV k kp sp),
      w\<lparr>entropy := ks,
        files := (files w)(kp \<mapsto> FilePVKeyJSON k,
          sp \<mapsto> FilePVLastSignStateJSON
            \<lparr> Height = 0, Round = 0, Step = stepNone, Signature = [], SignBytes = [] \<rparr>)\<rparr>)"
  by (simp add: LoadOrGenFilePV_def FileExists_def GenPrivKey_def FilePV_Save_def NewFilePV_def
      WriteFile_def is_dir_def Let_def)

lemma EnsureDir_creates_leaf:
  "is_dir w (butlast p) \<Longrightarrow> \<not> is_dir w p \<Longrightarrow> files w p = None \<Longrightarrow> p \<notin> readonly w \<Longrightarrow>
   EnsureDir p perm w = (None, w\<lparr>dirs := (dirs w)(p \<mapsto> perm AND NOT (umask w))\<rparr>)"
  by (simp add: EnsureDir_def MkdirAll.simps [of p perm w] MkdirAll.simps [of "butlast p" perm w]
      Mkdir_def)

lemma fresh0_run_empty:
  "InitializeNodeValidatorFilesFromMnemonic crypto0 config0 [] fresh0 =
     (Inr (''id/pub/random key 1'', ''pub/random key 2''), provisioned0)"
proof -
  let ?nk = "NodeKeyFile config0" and ?pvk = "PrivValidatorKeyFile config0"
    and ?pvs = "PrivValidatorStateFile config0"
  let ?w1 = "fresh0\<lparr>entropy := [''random key 2''],
                files := (files fresh0)(?nk \<mapsto> NodeKeyJSON ''random key 1'')\<rparr>"
  let ?w3 = "?w1\<lparr>dirs := (dirs ?w1)(filepath_Dir ?pvs \<mapsto> 511 AND NOT (umask ?w1))\<rparr>"
  let ?w4 = "?w3\<lparr>entropy := [],
        files := (files ?w3)(?pvk \<mapsto> FilePVKeyJSON ''random key 2'',
          ?pvs \<mapsto> FilePVLastSignStateJSON
            \<lparr> Height = 0, Round = 0, Step = stepNone, Signature = [], SignBytes = [] \<rparr>)\<rparr>"
  have s1: "LoadOrGenNodeKey ?nk fresh0 = (Inr ''random key 1'', ?w1)"
    by (intro LoadOrGenNodeKey_generates)
       (simp_all add: fresh0_def config0_def is_dir_def filepath_Dir_def)
  have s2: "EnsureDir (filepath_Dir ?pvk) 511 ?w1 = (None, ?w1)"
    by (intro EnsureDir_noop) (simp add: fresh0_def config0_def is_dir_def filepath_Dir_def)
  have s3: "EnsureDir (filepath_Dir ?pvs) 511 ?w1 = (None, ?w3)"
    by (intro EnsureDir_creates_leaf)
       (simp_all add: fresh0_def config0_def is_dir_def filepath_Dir_def)
  have s4: "LoadOrGenFilePV ?pvk ?pvs ?w3
      = (Inr (NewFilePV ''random key 2'' ?pvk ?pvs), ?w4)"
    by (intro LoadOrGenFilePV_generates)
       (simp_all add: fresh0_def config0_def is_dir_def filepath_Dir_def)
  have s5: "FromTmPubKeyInterface crypto0
        (PrivKey_PubKey crypto0 (Key_PrivKey (NewFilePV ''random key 2'' ?pvk ?pvs)))
      = Inr ''pub/random key 2''"
    "NodeKey_ID crypto0 ''random key 1'' = ''id/pub/random key 1''"
    by (simp_all add: crypto0_def FromTmPubKeyInterface_def NodeKey_ID_def NewFilePV_def)
  have w: "?w4 = provisioned0"
    by (simp add: fresh0_def provisioned0_def config0_def filepath_Dir_def)
  have "InitializeNodeValidatorFilesFromMnemonic crypto0 config0 [] fresh0 =
     (Inr (''id/pub/random key 1'', ''pub/random key 2''), ?w4)"
    by (simp only: provision_empty_staged [OF s1 s2 s3 s4] s5 sum.case option.case)
  with w show ?thesis by simp
qed

subsection \<open>The signing state\<close>

text \<open>
  C5, as the code has it. With the empty mnemonic, a call on a node whose validator key
  file exists leaves the signing-state file untouched, whatever the outcome; a successful
  call that generates the consensus key (no validator key file yet) writes the initial
  signing state (height 0, round 0, no step). A successful call with a valid non-empty
  mnemonic also writes the initial signing state, whether or not the files existed.
\<close>

theorem signing_state_untouched_without_mnemonic:
  "(files w (PrivValidatorKeyFile config) \<noteq> None \<and>
    NodeKeyFile config \<noteq> PrivValidatorStateFile config \<longrightarrow>
      files (snd (InitializeNodeValidatorFilesFromMnemonic cr config [] w))
          (PrivValidatorStateFile config)
        = files w (PrivValidatorStateFile config))
   \<and> (files w (PrivValidatorKeyFile config) = None \<and>
       NodeKeyFile config \<noteq> PrivValidatorKeyFile config \<and>
       InitializeNodeValidatorFilesFromMnemonic cr config [] w = (Inr res, w') \<longrightarrow>
      files w' (PrivValidatorStateFile config)
        = Some (FilePVLastSignStateJSON
            \<lparr> Height = 0, Round = 0, Step = stepNone, Signature = [], SignBytes = [] \<rparr>))
   \<and> (mnemonic \<noteq> [] \<and> IsMnemonicValid cr mnemonic \<and>
       InitializeNodeValidatorFilesFromMnemonic cr config mnemonic w = (Inr res, w'') \<longrightarrow>
      files w'' (PrivValidatorStateFile config)
        = Some (FilePVLastSignStateJSON
            \<lparr> Height = 0, Round = 0, Step = stepNone, Signature = [], SignBytes = [] \<rparr>))"
proof (intro conjI impI)
  let ?nk = "NodeKeyFile config" and ?pvk = "PrivValidatorKeyFile config"
    and ?pvs = "PrivValidatorStateFile config"
  assume h: "files w ?pvk \<noteq> None \<and> ?nk \<noteq> ?pvs"
  obtain r1 w1 where s1: "LoadOrGenNodeKey ?nk w = (r1, w1)"
    by (cases "LoadOrGenNodeKey ?nk w")
  obtain r2 w2 where s2: "EnsureDir (filepath_Dir ?pvk) 511 w1 = (r2, w2)"
    by (cases "EnsureDir (filepath_Dir ?pvk) 511 w1")
  obtain r3 w3 where s3: "EnsureDir (filepath_Dir ?pvs) 511 w2 = (r3, w3)"
    by (cases "EnsureDir (filepath_Dir ?pvs) 511 w2")
  obtain r4 w4 where s4: "LoadOrGenFilePV ?pvk ?pvs w3 = (r4, w4)"
    by (cases "LoadOrGenFilePV ?pvk ?pvs w3")
  have f1: "\<forall>q. q \<noteq> ?nk \<longrightarrow> files w1 q = files w q"
    using LoadOrGenNodeKey_frame [OF s1] by simp
  have k1: "files w1 ?pvk \<noteq> None"
  proof (cases "?nk = ?pvk")
    case True
    with h s1 have "w1 = w" by (simp add: LoadOrGenNodeKey_exists)
    with h show ?thesis by simp
  next
    case False
    with f1 h show ?thesis by simp
  qed
  have f2: "files w2 = files w1" using EnsureDir_frame [OF s2] by simp
  have f3: "files w3 = files w2" using EnsureDir_frame [OF s3] by simp
  have "w4 = w3" using s4 k1 f2 f3 by (simp add: LoadOrGenFilePV_exists)
  moreover have "files w1 ?pvs = files w ?pvs" using f1 h by auto
  ultimately have "files w1 ?pvs = files w ?pvs" "files w2 ?pvs = files w ?pvs"
    "files w3 ?pvs = files w ?pvs" "files w4 ?pvs = files w ?pvs"
    using f2 f3 by simp_all
  then show "files (snd (InitializeNodeValidatorFilesFromMnemonic cr config [] w)) ?pvs
      = files w ?pvs"
    unfolding provision_empty_staged [OF s1 s2 s3 s4]
    by (simp split: sum.splits option.splits)
next
  let ?nk = "NodeKeyFile config" and ?pvk = "PrivValidatorKeyFile config"
    and ?pvs = "PrivValidatorStateFile config"
  assume h: "files w ?pvk = None \<and> ?nk \<noteq> ?pvk \<and>
       InitializeNodeValidatorFilesFromMnemonic cr config [] w = (Inr res, w')"
  obtain nodeID valPubKey where res: "res = (nodeID, valPubKey)" by (cases res)
  from h res obtain nodeKey w1 w2 w3 filePV where
    s1: "LoadOrGenNodeKey ?nk w = (Inr nodeKey, w1)" and
    s2: "EnsureDir (filepath_Dir ?pvk) 511 w1 = (None, w2)" and
    s3: "EnsureDir (filepath_Dir ?pvs) 511 w2 = (None, w3)" and
    s4: "LoadOrGenFilePV ?pvk ?pvs w3 = (Inr filePV, w')"
    by (auto elim: provision_empty_success)
  have "files w3 ?pvk = None"
    using LoadOrGenNodeKey_frame [OF s1] EnsureDir_frame [OF s2] EnsureDir_frame [OF s3] h
    by auto
  from LoadOrGenFilePV_generated [OF this s4]
  show "files w' ?pvs = Some (FilePVLastSignStateJSON
            \<lparr> Height = 0, Round = 0, Step = stepNone, Signature = [], SignBytes = [] \<rparr>)"
    by (auto simp: NewFilePV_def)
next
  let ?pvs = "PrivValidatorStateFile config"
  assume h: "mnemonic \<noteq> [] \<and> IsMnemonicValid cr mnemonic \<and>
       InitializeNodeValidatorFilesFromMnemonic cr config mnemonic w = (Inr res, w'')"
  obtain nodeID valPubKey where res: "res = (nodeID, valPubKey)" by (cases res)
  from h res obtain w3 where
    "FilePV_Save (NewFilePV (GenPrivKeyFromSecret cr mnemonic)
               (PrivValidatorKeyFile config) ?pvs) w3 = (None, w'')"
    by (auto elim: provision_mnemonic_success)
  from FilePV_Save_None [OF this]
  show "files w'' ?pvs = Some (FilePVLastSignStateJSON
            \<lparr> Height = 0, Round = 0, Step = stepNone, Signature = [], SignBytes = [] \<rparr>)"
    by (simp add: NewFilePV_def)
qed

theorem signing_state_untouched_without_mnemonic_witness:
  "files initialized0 (PrivValidatorKeyFile config0) \<noteq> None
   \<and> NodeKeyFile config0 \<noteq> PrivValidatorStateFile config0
   \<and> files (snd (InitializeNodeValidatorFilesFromMnemonic crypto0 config0 [] initialized0))
        (PrivValidatorStateFile config0) = Some (FilePVLastSignStateJSON signedState)
   \<and> files fresh0 (PrivValidatorKeyFile config0) = None
   \<and> InitializeNodeValidatorFilesFromMnemonic crypto0 config0 [] fresh0
        = (Inr (''id/pub/random key 1'', ''pub/random key 2''), provisioned0)
   \<and> files provisioned0 (PrivValidatorStateFile config0)
        = Some (FilePVLastSignStateJSON
            \<lparr> Height = 0, Round = 0, Step = stepNone, Signature = [], SignBytes = [] \<rparr>)
   \<and> mnemonicA \<noteq> [] \<and> IsMnemonicValid crypto0 mnemonicA
   \<and> files (snd (InitializeNodeValidatorFilesFromMnemonic crypto0 config0 mnemonicA initialized0))
        (PrivValidatorStateFile config0)
        = Some (FilePVLastSignStateJSON
            \<lparr> Height = 0, Round = 0, Step = stepNone, Signature = [], SignBytes = [] \<rparr>)"
proof -
  let ?pvs = "PrivValidatorStateFile config0"
  let ?run = "InitializeNodeValidatorFilesFromMnemonic crypto0 config0 mnemonicA initialized0"
  note at_init = signing_state_untouched_without_mnemonic
    [of initialized0 config0 crypto0 "(''id/pub/priv/'' @ mnemonicA, ''pub/priv/'' @ mnemonicA)"
        _ mnemonicA "snd ?run"]
  note at_fresh = signing_state_untouched_without_mnemonic
    [of fresh0 config0 crypto0 "(''id/pub/random key 1'', ''pub/random key 2'')" provisioned0]
  have a: "files initialized0 (PrivValidatorKeyFile config0) \<noteq> None"
    and a': "files initialized0 ?pvs = Some (FilePVLastSignStateJSON signedState)"
    using config0_paths by (simp_all add: initialized0_def)
  have b: "files fresh0 (PrivValidatorKeyFile config0) = None"
    by (simp add: fresh0_def)
  have c: "?run = (Inr (''id/pub/priv/'' @ mnemonicA, ''pub/priv/'' @ mnemonicA), snd ?run)"
    by (simp add: initialized0_run_mnemonicA)
  have 1: "files (snd (InitializeNodeValidatorFilesFromMnemonic crypto0 config0 [] initialized0)) ?pvs
      = Some (FilePVLastSignStateJSON signedState)"
    using at_init [THEN conjunct1] a a' config0_paths by simp
  have 2: "files provisioned0 ?pvs = Some (FilePVLastSignStateJSON
            \<lparr> Height = 0, Round = 0, Step = stepNone, Signature = [], SignBytes = [] \<rparr>)"
    using at_fresh [THEN conjunct2, THEN conjunct1] b config0_paths fresh0_run_empty by simp
  have 3: "files (snd ?run) ?pvs = Some (FilePVLastSignStateJSON
            \<lparr> Height = 0, Round = 0, Step = stepNone, Signature = [], SignBytes = [] \<rparr>)"
    using at_init [THEN conjunct2, THEN conjunct2] mnemonicA_valid c by simp
  from a b 1 2 3 config0_paths(2) fresh0_run_empty mnemonicA_valid show ?thesis
    by (intro conjI) simp_all
qed

text \<open>
  C5 as stated also covers a call with a valid mnemonic on a node whose validator key
  file exists. Such a call builds a new signer with \<open>NewFilePV\<close> and calls \<open>Save\<close>
  (lines 96-100), which rewrites the signing-state file: a state at height 5 is back at
  height 0.
\<close>

theorem signing_state_reset_by_mnemonic_counterexample:
  "files initialized0 (PrivValidatorKeyFile config0)
       = Some (FilePVKeyJSON ''validator key on disk'')
   \<and> files initialized0 (PrivValidatorStateFile config0)
       = Some (FilePVLastSignStateJSON signedState)
   \<and> Height signedState = 5
   \<and> IsMnemonicValid crypto0 mnemonicA
   \<and> files (snd (InitializeNodeValidatorFilesFromMnemonic crypto0 config0 mnemonicA initialized0))
        (PrivValidatorStateFile config0)
       = Some (FilePVLastSignStateJSON
           \<lparr> Height = 0, Round = 0, Step = stepNone, Signature = [], SignBytes = [] \<rparr>)"
  using config0_paths mnemonicA_valid
  by (simp add: initialized0_run_mnemonicA)
     (simp add: initialized0_def signedState_def stepNone_def)

subsection \<open>Keys derived from a mnemonic\<close>

text \<open>
  C10. For every valid non-empty mnemonic, a successful call has derived the transport
  key and the consensus key from the same secret bytes with the same function: the
  node-key file and the validator-key file it leaves (at distinct paths) hold the same
  private key, and the returned identifiers are those of that key. The call does
  succeed whenever the three containing directories exist, the three paths are writable
  files and the codec accepts the public key.
\<close>

theorem mnemonic_derives_both_keys_from_same_secret:
  assumes "mnemonic \<noteq> []" and "IsMnemonicValid cr mnemonic"
    and "NodeKeyFile config \<noteq> PrivValidatorKeyFile config"
    and "NodeKeyFile config \<noteq> PrivValidatorStateFile config"
    and "PrivValidatorKeyFile config \<noteq> PrivValidatorStateFile config"
  shows "(InitializeNodeValidatorFilesFromMnemonic cr config mnemonic w
            = (Inr (nodeID, valPubKey), w') \<longrightarrow>
          files w' (NodeKeyFile config) = Some (NodeKeyJSON (GenPrivKeyFromSecret cr mnemonic)) \<and>
          files w' (PrivValidatorKeyFile config)
            = Some (FilePVKeyJSON (GenPrivKeyFromSecret cr mnemonic)) \<and>
          nodeID = NodeKey_ID cr (GenPrivKeyFromSecret cr mnemonic) \<and>
          FromTmPubKeyInterface cr (PrivKey_PubKey cr (GenPrivKeyFromSecret cr mnemonic))
            = Inr valPubKey)
     \<and> (is_dir w (filepath_Dir (NodeKeyFile config)) \<and> \<not> is_dir w (NodeKeyFile config) \<and>
        NodeKeyFile config \<notin> readonly w \<and>
        is_dir w (filepath_Dir (PrivValidatorKeyFile config)) \<and>
        \<not> is_dir w (PrivValidatorKeyFile config) \<and> PrivValidatorKeyFile config \<notin> readonly w \<and>
        is_dir w (filepath_Dir (PrivValidatorStateFile config)) \<and>
        \<not> is_dir w (PrivValidatorStateFile config) \<and>
        PrivValidatorStateFile config \<notin> readonly w \<and>
        FromTmPubKeyInterface cr (PrivKey_PubKey cr (GenPrivKeyFromSecret cr mnemonic)) = Inr pk
        \<longrightarrow> (\<exists>w1. InitializeNodeValidatorFilesFromMnemonic cr config mnemonic w
                = (Inr (NodeKey_ID cr (GenPrivKeyFromSecret cr mnemonic), pk), w1)))"
proof (rule conjI; rule impI)
  let ?k = "GenPrivKeyFromSecret cr mnemonic"
  assume run: "InitializeNodeValidatorFilesFromMnemonic cr config mnemonic w
            = (Inr (nodeID, valPubKey), w')"
  from provision_mnemonic_success [OF assms(1,2) run]
  obtain w1 w2 w3 where
    s1: "NodeKey_SaveAs ?k (NodeKeyFile config) w = (None, w1)" and
    s2: "EnsureDir (filepath_Dir (PrivValidatorKeyFile config)) 511 w1 = (None, w2)" and
    s3: "EnsureDir (filepath_Dir (PrivValidatorStateFile config)) 511 w2 = (None, w3)" and
    s4: "FilePV_Save (NewFilePV ?k (PrivValidatorKeyFile config)
           (PrivValidatorStateFile config)) w3 = (None, w')" and
    c: "FromTmPubKeyInterface cr (PrivKey_PubKey cr ?k) = Inr valPubKey" and
    i: "nodeID = NodeKey_ID cr ?k"
    by blast
  have "files w1 (NodeKeyFile config) = Some (NodeKeyJSON ?k)"
    using WriteFile_files [OF s1 [unfolded NodeKey_SaveAs_def]] by simp
  then have "files w3 (NodeKeyFile config) = Some (NodeKeyJSON ?k)"
    using EnsureDir_frame [OF s2] EnsureDir_frame [OF s3] by simp
  with FilePV_Save_None [OF s4] assms(3,4,5)
  have "files w' (NodeKeyFile config) = Some (NodeKeyJSON ?k)"
    "files w' (PrivValidatorKeyFile config) = Some (FilePVKeyJSON ?k)"
    by (simp_all add: NewFilePV_def)
  with c i show "files w' (NodeKeyFile config) = Some (NodeKeyJSON ?k) \<and>
          files w' (PrivValidatorKeyFile config) = Some (FilePVKeyJSON ?k) \<and>
          nodeID = NodeKey_ID cr ?k \<and>
          FromTmPubKeyInterface cr (PrivKey_PubKey cr ?k) = Inr valPubKey"
    by simp
next
  assume "is_dir w (filepath_Dir (NodeKeyFile config)) \<and> \<not> is_dir w (NodeKeyFile config) \<and>
        NodeKeyFile config \<notin> readonly w \<and>
        is_dir w (filepath_Dir (PrivValidatorKeyFile config)) \<and>
        \<not> is_dir w (PrivValidatorKeyFile config) \<and> PrivValidatorKeyFile config \<notin> readonly w \<and>
        is_dir w (filepath_Dir (PrivValidatorStateFile config)) \<and>
        \<not> is_dir w (PrivValidatorStateFile config) \<and>
        PrivValidatorStateFile config \<notin> readonly w \<and>
        FromTmPubKeyInterface cr (PrivKey_PubKey cr (GenPrivKeyFromSecret cr mnemonic)) = Inr pk"
  then show "\<exists>w1. InitializeNodeValidatorFilesFromMnemonic cr config mnemonic w
                = (Inr (NodeKey_ID cr (GenPrivKeyFromSecret cr mnemonic), pk), w1)"
    using provision_mnemonic_succeeds [OF assms(1,2), of w config pk] by blast
qed

theorem mnemonic_derives_both_keys_from_same_secret_witness:
  "mnemonicA \<noteq> [] \<and> IsMnemonicValid crypto0 mnemonicA
   \<and> NodeKeyFile config0 \<noteq> PrivValidatorKeyFile config0
   \<and> NodeKeyFile config0 \<noteq> PrivValidatorStateFile config0
   \<and> PrivValidatorKeyFile config0 \<noteq> PrivValidatorStateFile config0
   \<and> fst (InitializeNodeValidatorFilesFromMnemonic crypto0 config0 mnemonicA initialized0)
        = Inr (''id/pub/priv/'' @ mnemonicA, ''pub/priv/'' @ mnemonicA)
   \<and> files (snd (InitializeNodeValidatorFilesFromMnemonic crypto0 config0 mnemonicA initialized0))
        (NodeKeyFile config0) = Some (NodeKeyJSON (GenPrivKeyFromSecret crypto0 mnemonicA))
   \<and> files (snd (InitializeNodeValidatorFilesFromMnemonic crypto0 config0 mnemonicA initialized0))
        (PrivValidatorKeyFile config0)
        = Some (FilePVKeyJSON (GenPrivKeyFromSecret crypto0 mnemonicA))
   \<and> (\<exists>w1. InitializeNodeValidatorFilesFromMnemonic crypto0 config0 mnemonicA initialized0
        = (Inr (NodeKey_ID crypto0 (GenPrivKeyFromSecret crypto0 mnemonicA),
                ''pub/priv/'' @ mnemonicA), w1))"
proof -
  let ?run = "InitializeNodeValidatorFilesFromMnemonic crypto0 config0 mnemonicA initialized0"
  note at_init = mnemonic_derives_both_keys_from_same_secret
    [OF mnemonicA_valid [THEN conjunct1] mnemonicA_valid [THEN conjunct2] config0_paths,
     of initialized0 "''id/pub/priv/'' @ mnemonicA" "''pub/priv/'' @ mnemonicA" "snd ?run"
        "''pub/priv/'' @ mnemonicA"]
  have c: "?run = (Inr (''id/pub/priv/'' @ mnemonicA, ''pub/priv/'' @ mnemonicA), snd ?run)"
    by (simp add: initialized0_run_mnemonicA)
  have 1: "files (snd ?run) (NodeKeyFile config0)
        = Some (NodeKeyJSON (GenPrivKeyFromSecret crypto0 mnemonicA))"
    "files (snd ?run) (PrivValidatorKeyFile config0)
        = Some (FilePVKeyJSON (GenPrivKeyFromSecret crypto0 mnemonicA))"
    using at_init [THEN conjunct1] c by simp_all
  have codec: "FromTmPubKeyInterface crypto0
      (PrivKey_PubKey crypto0 (GenPrivKeyFromSecret crypto0 mnemonicA))
        = Inr (''pub/priv/'' @ mnemonicA)"
    by (simp add: crypto0_def FromTmPubKeyInterface_def)
  have 2: "\<exists>w1. ?run = (Inr (NodeKey_ID crypto0 (GenPrivKeyFromSecret crypto0 mnemonicA),
                ''pub/priv/'' @ mnemonicA), w1)"
    using at_init [THEN conjunct2] initialized0_layout codec by simp
  have 3: "fst ?run = Inr (''id/pub/priv/'' @ mnemonicA, ''pub/priv/'' @ mnemonicA)"
    using c by (metis fst_conv)
  from 1 2 3 mnemonicA_valid config0_paths show ?thesis
    by (intro conjI) simp_all
qed

subsection \<open>The empty mnemonic\<close>

lemma MkdirAll_error:
  "MkdirAll p perm w = (Some e, w') \<Longrightarrow> \<exists>q. e = FilesystemFailure q"
proof (induction p perm w arbitrary: e w' rule: MkdirAll.induct)
  case (1 p perm w)
  show ?case
  proof (cases "is_dir w p \<or> files w p \<noteq> None")
    case True
    with "1.prems" show ?thesis
      by (auto simp: MkdirAll.simps [of p perm w] split: if_splits)
  next
    case False
    then have a: "\<not> is_dir w p" and b: "\<not> files w p \<noteq> None" by auto
    obtain r1 w1 where rec: "MkdirAll (butlast p) perm w = (r1, w1)"
      by (cases "MkdirAll (butlast p) perm w")
    show ?thesis
    proof (cases r1)
      case None
      with rec "1.prems" False have "Mkdir p perm w1 = (Some e, w')"
        by (simp add: MkdirAll.simps [of p perm w])
      then show ?thesis by (auto simp: Mkdir_def split: if_splits)
    next
      case (Some e1)
      with rec "1.prems" False have "e = e1" "w' = w1"
        by (simp_all add: MkdirAll.simps [of p perm w])
      with "1.IH" [OF a b] rec Some show ?thesis by simp
    qed
  qed
qed

lemma LoadOrGenNodeKey_error:
  "LoadOrGenNodeKey p w = (Inl e, w') \<Longrightarrow> e \<noteq> InvalidMnemonic"
  by (auto simp: LoadOrGenNodeKey_def LoadNodeKey_def ReadFile_def GenPrivKey_def
      NodeKey_SaveAs_def WriteFile_def
      split: if_splits option.splits content.splits list.splits)

lemma LoadOrGenFilePV_error:
  "LoadOrGenFilePV kp sp w = (Inl e, w') \<Longrightarrow> e \<noteq> InvalidMnemonic"
  by (auto simp: LoadOrGenFilePV_def LoadFilePV_def ReadFile_def GenPrivKey_def
      FilePV_Save_def WriteFile_def Let_def
      split: if_splits option.splits content.splits list.splits)

lemma FromTmPubKeyInterface_error:
  "FromTmPubKeyInterface cr k = Inl e \<Longrightarrow> e \<noteq> InvalidMnemonic"
  by (auto simp: FromTmPubKeyInterface_def split: option.splits)

lemma provision_empty_never_invalid_mnemonic:
  "fst (InitializeNodeValidatorFilesFromMnemonic cr config [] w) \<noteq> Inl InvalidMnemonic"
proof -
  obtain r1 w1 where s1: "LoadOrGenNodeKey (NodeKeyFile config) w = (r1, w1)"
    by (cases "LoadOrGenNodeKey (NodeKeyFile config) w")
  obtain r2 w2 where s2: "EnsureDir (filepath_Dir (PrivValidatorKeyFile config)) 511 w1 = (r2, w2)"
    by (cases "EnsureDir (filepath_Dir (PrivValidatorKeyFile config)) 511 w1")
  obtain r3 w3 where s3: "EnsureDir (filepath_Dir (PrivValidatorStateFile config)) 511 w2 = (r3, w3)"
    by (cases "EnsureDir (filepath_Dir (PrivValidatorStateFile config)) 511 w2")
  obtain r4 w4 where s4:
    "LoadOrGenFilePV (PrivValidatorKeyFile config) (PrivValidatorStateFile config) w3 = (r4, w4)"
    by (cases "LoadOrGenFilePV (PrivValidatorKeyFile config) (PrivValidatorStateFile config) w3")
  have e1: "r1 \<noteq> Inl InvalidMnemonic" using LoadOrGenNodeKey_error s1 by blast
  have e2: "r2 \<noteq> Some InvalidMnemonic"
    using MkdirAll_error s2 unfolding EnsureDir_def by blast
  have e3: "r3 \<noteq> Some InvalidMnemonic"
    using MkdirAll_error s3 unfolding EnsureDir_def by blast
  have e4: "r4 \<noteq> Inl InvalidMnemonic" using LoadOrGenFilePV_error s4 by blast
  show ?thesis
    unfolding provision_empty_staged [OF s1 s2 s3 s4]
    using e1 e2 e3 e4 FromTmPubKeyInterface_error [of cr]
    by (auto split: sum.splits option.splits)
qed

lemma provision_empty_independent_of_validity:
  "InitializeNodeValidatorFilesFromMnemonic (cr\<lparr>IsMnemonicValid := v\<rparr>) config [] w
     = InitializeNodeValidatorFilesFromMnemonic cr config [] w"
proof -
  have a: "NodeKey_ID (cr\<lparr>IsMnemonicValid := v\<rparr>) = NodeKey_ID cr"
    by (simp add: fun_eq_iff NodeKey_ID_def)
  have b: "FromTmPubKeyInterface (cr\<lparr>IsMnemonicValid := v\<rparr>) = FromTmPubKeyInterface cr"
    by (simp add: fun_eq_iff FromTmPubKeyInterface_def)
  have c: "PrivKey_PubKey (cr\<lparr>IsMnemonicValid := v\<rparr>) = PrivKey_PubKey cr"
    by simp
  show ?thesis
    unfolding provision_empty_mnemonic a b c ..
qed

lemma provision_empty_success_keys:
  assumes "NodeKeyFile config \<noteq> PrivValidatorKeyFile config"
    and "NodeKeyFile config \<noteq> PrivValidatorStateFile config"
    and "PrivValidatorKeyFile config \<noteq> PrivValidatorStateFile config"
    and "InitializeNodeValidatorFilesFromMnemonic cr config [] w = (Inr (nodeID, valPubKey), w')"
  shows "\<exists>nodeKey valKey.
          nodeID = NodeKey_ID cr nodeKey \<and>
          FromTmPubKeyInterface cr (PrivKey_PubKey cr valKey) = Inr valPubKey \<and>
          files w' (NodeKeyFile config) = Some (NodeKeyJSON nodeKey) \<and>
          files w' (PrivValidatorKeyFile config) = Some (FilePVKeyJSON valKey) \<and>
          (files w (NodeKeyFile config) \<noteq> None \<longrightarrow>
             files w (NodeKeyFile config) = Some (NodeKeyJSON nodeKey)) \<and>
          (files w (PrivValidatorKeyFile config) \<noteq> None \<longrightarrow>
             files w (PrivValidatorKeyFile config) = Some (FilePVKeyJSON valKey)) \<and>
          entropy w =
            (if files w (NodeKeyFile config) = None then [nodeKey] else []) @
            (if files w (PrivValidatorKeyFile config) = None then [valKey] else []) @
            entropy w'"
proof -
  let ?nk = "NodeKeyFile config" and ?pvk = "PrivValidatorKeyFile config"
    and ?pvs = "PrivValidatorStateFile config"
  from assms have h: "?nk \<noteq> ?pvk \<and> ?nk \<noteq> ?pvs \<and> ?pvk \<noteq> ?pvs \<and>
       InitializeNodeValidatorFilesFromMnemonic cr config [] w = (Inr (nodeID, valPubKey), w')"
    by simp
  then obtain nodeKey w1 w2 w3 filePV where
    s1: "LoadOrGenNodeKey ?nk w = (Inr nodeKey, w1)" and
    s2: "EnsureDir (filepath_Dir ?pvk) 511 w1 = (None, w2)" and
    s3: "EnsureDir (filepath_Dir ?pvs) 511 w2 = (None, w3)" and
    s4: "LoadOrGenFilePV ?pvk ?pvs w3 = (Inr filePV, w')" and
    c: "FromTmPubKeyInterface cr (PrivKey_PubKey cr (Key_PrivKey filePV)) = Inr valPubKey" and
    i: "nodeID = NodeKey_ID cr nodeKey"
    by (auto elim: provision_empty_success)
  let ?valKey = "Key_PrivKey filePV"
  have n: "files w1 ?nk = Some (NodeKeyJSON nodeKey) \<and>
      (files w ?nk \<noteq> None \<longrightarrow> files w ?nk = Some (NodeKeyJSON nodeKey)) \<and>
      entropy w = (if files w ?nk = None then [nodeKey] else []) @ entropy w1"
  proof (cases "files w ?nk = None")
    case True
    from LoadOrGenNodeKey_generated [OF True s1] True show ?thesis by auto
  next
    case False
    with s1 have "w1 = w" "LoadNodeKey ?nk w = Inr nodeKey"
      by (auto simp: LoadOrGenNodeKey_exists)
    with False show ?thesis by (simp add: LoadNodeKey_Inr)
  qed
  have f1: "files w1 ?pvk = files w ?pvk"
    using LoadOrGenNodeKey_frame [OF s1] h by auto
  have f3: "files w3 = files w1" "entropy w3 = entropy w1"
    using EnsureDir_frame [OF s2] EnsureDir_frame [OF s3] by simp_all
  have p: "files w' ?pvk = Some (FilePVKeyJSON ?valKey) \<and> files w' ?nk = files w3 ?nk \<and>
      (files w ?pvk \<noteq> None \<longrightarrow> files w ?pvk = Some (FilePVKeyJSON ?valKey)) \<and>
      entropy w3 = (if files w ?pvk = None then [?valKey] else []) @ entropy w'"
  proof (cases "files w ?pvk = None")
    case True
    with f1 f3 have "files w3 ?pvk = None" by simp
    from LoadOrGenFilePV_generated [OF this s4] True h show ?thesis
      by (auto simp: NewFilePV_def)
  next
    case False
    with f1 f3 have "files w3 ?pvk \<noteq> None" by simp
    with s4 have "w' = w3" "LoadFilePV ?pvk ?pvs w3 = Inr filePV"
      by (auto simp: LoadOrGenFilePV_exists)
    with LoadFilePV_Inr [of ?pvk ?pvs w3 filePV] False f1 f3 show ?thesis by simp
  qed
  from n p f3 c i
  show "\<exists>nodeKey valKey.
          nodeID = NodeKey_ID cr nodeKey \<and>
          FromTmPubKeyInterface cr (PrivKey_PubKey cr valKey) = Inr valPubKey \<and>
          files w' ?nk = Some (NodeKeyJSON nodeKey) \<and>
          files w' ?pvk = Some (FilePVKeyJSON valKey) \<and>
          (files w ?nk \<noteq> None \<longrightarrow> files w ?nk = Some (NodeKeyJSON nodeKey)) \<and>
          (files w ?pvk \<noteq> None \<longrightarrow> files w ?pvk = Some (FilePVKeyJSON valKey)) \<and>
          entropy w =
            (if files w ?nk = None then [nodeKey] else []) @
            (if files w ?pvk = None then [valKey] else []) @
            entropy w'"
    by (intro exI [of _ nodeKey] exI [of _ ?valKey]) simp
qed

lemma is_dir_entropy_files_update [simp]:
  "is_dir (w\<lparr>entropy := e, files := f\<rparr>) p = is_dir w p"
  by (simp add: is_dir_def)

lemma provision_empty_loads_both:
  assumes "files w (NodeKeyFile config) = Some (NodeKeyJSON nodeKey)"
    and "files w (PrivValidatorKeyFile config) = Some (FilePVKeyJSON valKey)"
    and "files w (PrivValidatorStateFile config) = Some (FilePVLastSignStateJSON st)"
    and "is_dir w (filepath_Dir (PrivValidatorKeyFile config))"
    and "is_dir w (filepath_Dir (PrivValidatorStateFile config))"
    and "FromTmPubKeyInterface cr (PrivKey_PubKey cr valKey) = Inr pk"
  shows "InitializeNodeValidatorFilesFromMnemonic cr config [] w
     = (Inr (NodeKey_ID cr nodeKey, pk), w)"
proof -
  let ?nk = "NodeKeyFile config" and ?pvk = "PrivValidatorKeyFile config"
    and ?pvs = "PrivValidatorStateFile config"
  have s1: "LoadOrGenNodeKey ?nk w = (Inr nodeKey, w)"
    using assms(1) by (simp add: LoadOrGenNodeKey_exists LoadNodeKey_Inr)
  have s2: "EnsureDir (filepath_Dir ?pvk) 511 w = (None, w)"
    using assms(4) by (rule EnsureDir_noop)
  have s3: "EnsureDir (filepath_Dir ?pvs) 511 w = (None, w)"
    using assms(5) by (rule EnsureDir_noop)
  have s4: "LoadOrGenFilePV ?pvk ?pvs w
     = (Inr \<lparr> Key_PrivKey = valKey, Key_filePath = ?pvk,
               LastSignState = st, LastSignState_filePath = ?pvs \<rparr>, w)"
    using assms(2,3) by (simp add: LoadOrGenFilePV_exists LoadFilePV_ok)
  show ?thesis
    using provision_empty_staged [OF s1 s2 s3 s4, of cr] assms(6) by simp
qed

lemma provision_empty_loads_node_generates_validator:
  assumes "files w (NodeKeyFile config) = Some (NodeKeyJSON nodeKey)"
    and "files w (PrivValidatorKeyFile config) = None"
    and "entropy w = valKey # rest"
    and "is_dir w (filepath_Dir (PrivValidatorKeyFile config))"
    and "\<not> is_dir w (PrivValidatorKeyFile config)"
    and "PrivValidatorKeyFile config \<notin> readonly w"
    and "is_dir w (filepath_Dir (PrivValidatorStateFile config))"
    and "\<not> is_dir w (PrivValidatorStateFile config)"
    and "PrivValidatorStateFile config \<notin> readonly w"
    and "FromTmPubKeyInterface cr (PrivKey_PubKey cr valKey) = Inr pk"
  shows "InitializeNodeValidatorFilesFromMnemonic cr config [] w
     = (Inr (NodeKey_ID cr nodeKey, pk),
        w\<lparr>entropy := rest,
          files := (files w)
            (PrivValidatorKeyFile config \<mapsto> FilePVKeyJSON valKey,
             PrivValidatorStateFile config \<mapsto> FilePVLastSignStateJSON
               \<lparr> Height = 0, Round = 0, Step = stepNone, Signature = [], SignBytes = [] \<rparr>)\<rparr>)"
proof -
  let ?nk = "NodeKeyFile config" and ?pvk = "PrivValidatorKeyFile config"
    and ?pvs = "PrivValidatorStateFile config"
  have s1: "LoadOrGenNodeKey ?nk w = (Inr nodeKey, w)"
    using assms(1) by (simp add: LoadOrGenNodeKey_exists LoadNodeKey_Inr)
  have s2: "EnsureDir (filepath_Dir ?pvk) 511 w = (None, w)"
    using assms(4) by (rule EnsureDir_noop)
  have s3: "EnsureDir (filepath_Dir ?pvs) 511 w = (None, w)"
    using assms(7) by (rule EnsureDir_noop)
  note s4 = LoadOrGenFilePV_generates [OF assms(2,3,4,5,6,7,8,9)]
  show ?thesis
    using provision_empty_staged [OF s1 s2 s3 s4, of cr] assms(10)
    by (simp add: NewFilePV_def)
qed

lemma provision_empty_generates_node_loads_validator:
  assumes "files w (NodeKeyFile config) = None"
    and "entropy w = nodeKey # rest"
    and "is_dir w (filepath_Dir (NodeKeyFile config))"
    and "\<not> is_dir w (NodeKeyFile config)"
    and "NodeKeyFile config \<notin> readonly w"
    and "files w (PrivValidatorKeyFile config) = Some (FilePVKeyJSON valKey)"
    and "files w (PrivValidatorStateFile config) = Some (FilePVLastSignStateJSON st)"
    and "is_dir w (filepath_Dir (PrivValidatorKeyFile config))"
    and "is_dir w (filepath_Dir (PrivValidatorStateFile config))"
    and "FromTmPubKeyInterface cr (PrivKey_PubKey cr valKey) = Inr pk"
  shows "InitializeNodeValidatorFilesFromMnemonic cr config [] w
     = (Inr (NodeKey_ID cr nodeKey, pk),
        w\<lparr>entropy := rest,
          files := (files w)(NodeKeyFile config \<mapsto> NodeKeyJSON nodeKey)\<rparr>)"
proof -
  let ?nk = "NodeKeyFile config" and ?pvk = "PrivValidatorKeyFile config"
    and ?pvs = "PrivValidatorStateFile config"
  let ?w1 = "w\<lparr>entropy := rest, files := (files w)(?nk \<mapsto> NodeKeyJSON nodeKey)\<rparr>"
  note s1 = LoadOrGenNodeKey_generates [OF assms(1,2,3,4,5)]
  have s2: "EnsureDir (filepath_Dir ?pvk) 511 ?w1 = (None, ?w1)"
    using assms(8) by (intro EnsureDir_noop) simp
  have s3: "EnsureDir (filepath_Dir ?pvs) 511 ?w1 = (None, ?w1)"
    using assms(9) by (intro EnsureDir_noop) simp
  have ne: "?nk \<noteq> ?pvk" "?nk \<noteq> ?pvs"
    using assms(1,6,7) by auto
  have s4: "LoadOrGenFilePV ?pvk ?pvs ?w1
     = (Inr \<lparr> Key_PrivKey = valKey, Key_filePath = ?pvk,
               LastSignState = st, LastSignState_filePath = ?pvs \<rparr>, ?w1)"
    using assms(6,7) ne by (simp add: LoadOrGenFilePV_exists LoadFilePV_ok)
  show ?thesis
    using provision_empty_staged [OF s1 s2 s3 s4, of cr] assms(10) by simp
qed

lemma provision_empty_generates_both:
  assumes "files w (NodeKeyFile config) = None"
    and "files w (PrivValidatorKeyFile config) = None"
    and "NodeKeyFile config \<noteq> PrivValidatorKeyFile config"
    and "entropy w = nodeKey # valKey # rest"
    and "is_dir w (filepath_Dir (NodeKeyFile config))"
    and "\<not> is_dir w (NodeKeyFile config)"
    and "NodeKeyFile config \<notin> readonly w"
    and "is_dir w (filepath_Dir (PrivValidatorKeyFile config))"
    and "\<not> is_dir w (PrivValidatorKeyFile config)"
    and "PrivValidatorKeyFile config \<notin> readonly w"
    and "is_dir w (filepath_Dir (PrivValidatorStateFile config))"
    and "\<not> is_dir w (PrivValidatorStateFile config)"
    and "PrivValidatorStateFile config \<notin> readonly w"
    and "FromTmPubKeyInterface cr (PrivKey_PubKey cr valKey) = Inr pk"
  shows "InitializeNodeValidatorFilesFromMnemonic cr config [] w
     = (Inr (NodeKey_ID cr nodeKey, pk),
        w\<lparr>entropy := rest,
          files := (files w)
            (NodeKeyFile config \<mapsto> NodeKeyJSON nodeKey,
             PrivValidatorKeyFile config \<mapsto> FilePVKeyJSON valKey,
             PrivValidatorStateFile config \<mapsto> FilePVLastSignStateJSON
               \<lparr> Height = 0, Round = 0, Step = stepNone, Signature = [], SignBytes = [] \<rparr>)\<rparr>)"
proof -
  let ?nk = "NodeKeyFile config" and ?pvk = "PrivValidatorKeyFile config"
    and ?pvs = "PrivValidatorStateFile config"
  let ?w1 = "w\<lparr>entropy := valKey # rest, files := (files w)(?nk \<mapsto> NodeKeyJSON nodeKey)\<rparr>"
  note s1 = LoadOrGenNodeKey_generates [OF assms(1,4,5,6,7)]
  have s2: "EnsureDir (filepath_Dir ?pvk) 511 ?w1 = (None, ?w1)"
    using assms(8) by (intro EnsureDir_noop) simp
  have s3: "EnsureDir (filepath_Dir ?pvs) 511 ?w1 = (None, ?w1)"
    using assms(11) by (intro EnsureDir_noop) simp
  have s4: "LoadOrGenFilePV ?pvk ?pvs ?w1 =
     (Inr (NewFilePV valKey ?pvk ?pvs),
      ?w1\<lparr>entropy := rest,
        files := (files ?w1)(?pvk \<mapsto> FilePVKeyJSON valKey,
          ?pvs \<mapsto> FilePVLastSignStateJSON
            \<lparr> Height = 0, Round = 0, Step = stepNone, Signature = [], SignBytes = [] \<rparr>)\<rparr>)"
    using assms(2,3,8,9,10,11,12,13) by (intro LoadOrGenFilePV_generates) simp_all
  show ?thesis
    using provision_empty_staged [OF s1 s2 s3 s4, of cr] assms(14)
    by (simp add: NewFilePV_def)
qed


text \<open>
  C6. For the empty mnemonic, \<open>InitializeNodeValidatorFilesFromMnemonic\<close> never returns
  the invalid-mnemonic error and its result does not depend on the validity predicate at
  all. It takes the load-or-generate path for both keys. Every successful call (the
  three paths being distinct) leaves in each key file the key whose identifier it
  returns: the key that was on disk if the file existed, otherwise the next key of the
  random source, the node key drawn first. And the call does succeed in each of the four
  cases: a key file that exists and parses is loaded and left as it is (with both on
  disk the world is unchanged); a key file that is missing is generated from the random
  source and persisted, given a writable path; the signing state is written with a
  generated validator key and loaded with an existing one.
\<close>

theorem empty_mnemonic_loads_or_generates:
  "fst (InitializeNodeValidatorFilesFromMnemonic cr config [] w) \<noteq> Inl InvalidMnemonic
   \<and> InitializeNodeValidatorFilesFromMnemonic (cr\<lparr>IsMnemonicValid := v\<rparr>) config [] w
       = InitializeNodeValidatorFilesFromMnemonic cr config [] w
   \<and> (NodeKeyFile config \<noteq> PrivValidatorKeyFile config \<and>
       NodeKeyFile config \<noteq> PrivValidatorStateFile config \<and>
       PrivValidatorKeyFile config \<noteq> PrivValidatorStateFile config \<and>
       InitializeNodeValidatorFilesFromMnemonic cr config [] w = (Inr (nodeID, valPubKey), w')
       \<longrightarrow>
       (\<exists>k1 k2.
          nodeID = NodeKey_ID cr k1 \<and>
          FromTmPubKeyInterface cr (PrivKey_PubKey cr k2) = Inr valPubKey \<and>
          files w' (NodeKeyFile config) = Some (NodeKeyJSON k1) \<and>
          files w' (PrivValidatorKeyFile config) = Some (FilePVKeyJSON k2) \<and>
          (files w (NodeKeyFile config) \<noteq> None \<longrightarrow>
             files w (NodeKeyFile config) = Some (NodeKeyJSON k1)) \<and>
          (files w (PrivValidatorKeyFile config) \<noteq> None \<longrightarrow>
             files w (PrivValidatorKeyFile config) = Some (FilePVKeyJSON k2)) \<and>
          entropy w =
            (if files w (NodeKeyFile config) = None then [k1] else []) @
            (if files w (PrivValidatorKeyFile config) = None then [k2] else []) @
            entropy w'))
   \<and> (files w (NodeKeyFile config) = Some (NodeKeyJSON nodeKey) \<and>
       files w (PrivValidatorKeyFile config) = Some (FilePVKeyJSON valKey) \<and>
       files w (PrivValidatorStateFile config) = Some (FilePVLastSignStateJSON st) \<and>
       is_dir w (filepath_Dir (PrivValidatorKeyFile config)) \<and>
       is_dir w (filepath_Dir (PrivValidatorStateFile config)) \<and>
       FromTmPubKeyInterface cr (PrivKey_PubKey cr valKey) = Inr pk \<longrightarrow>
       InitializeNodeValidatorFilesFromMnemonic cr config [] w
         = (Inr (NodeKey_ID cr nodeKey, pk), w))
   \<and> (files w (NodeKeyFile config) = Some (NodeKeyJSON nodeKey) \<and>
       files w (PrivValidatorKeyFile config) = None \<and>
       entropy w = valKey # rest \<and>
       is_dir w (filepath_Dir (PrivValidatorKeyFile config)) \<and>
       \<not> is_dir w (PrivValidatorKeyFile config) \<and>
       PrivValidatorKeyFile config \<notin> readonly w \<and>
       is_dir w (filepath_Dir (PrivValidatorStateFile config)) \<and>
       \<not> is_dir w (PrivValidatorStateFile config) \<and>
       PrivValidatorStateFile config \<notin> readonly w \<and>
       FromTmPubKeyInterface cr (PrivKey_PubKey cr valKey) = Inr pk \<longrightarrow>
       InitializeNodeValidatorFilesFromMnemonic cr config [] w
         = (Inr (NodeKey_ID cr nodeKey, pk),
            w\<lparr>entropy := rest,
              files := (files w)
                (PrivValidatorKeyFile config \<mapsto> FilePVKeyJSON valKey,
                 PrivValidatorStateFile config \<mapsto> FilePVLastSignStateJSON
                   \<lparr> Height = 0, Round = 0, Step = stepNone, Signature = [], SignBytes = [] \<rparr>)\<rparr>))
   \<and> (files w (NodeKeyFile config) = None \<and>
       entropy w = nodeKey # rest \<and>
       is_dir w (filepath_Dir (NodeKeyFile config)) \<and>
       \<not> is_dir w (NodeKeyFile config) \<and>
       NodeKeyFile config \<notin> readonly w \<and>
       files w (PrivValidatorKeyFile config) = Some (FilePVKeyJSON valKey) \<and>
       files w (PrivValidatorStateFile config) = Some (FilePVLastSignStateJSON st) \<and>
       is_dir w (filepath_Dir (PrivValidatorKeyFile config)) \<and>
       is_dir w (filepath_Dir (PrivValidatorStateFile config)) \<and>
       FromTmPubKeyInterface cr (PrivKey_PubKey cr valKey) = Inr pk \<longrightarrow>
       InitializeNodeValidatorFilesFromMnemonic cr config [] w
         = (Inr (NodeKey_ID cr nodeKey, pk),
            w\<lparr>entropy := rest,
              files := (files w)(NodeKeyFile config \<mapsto> NodeKeyJSON nodeKey)\<rparr>))
   \<and> (files w (NodeKeyFile config) = None \<and>
       files w (PrivValidatorKeyFile config) = None \<and>
       NodeKeyFile config \<noteq> PrivValidatorKeyFile config \<and>
       entropy w = nodeKey # valKey # rest \<and>
       is_dir w (filepath_Dir (NodeKeyFile config)) \<and>
       \<not> is_dir w (NodeKeyFile config) \<and>
       NodeKeyFile config \<notin> readonly w \<and>
       is_dir w (filepath_Dir (PrivValidatorKeyFile config)) \<and>
       \<not> is_dir w (PrivValidatorKeyFile config) \<and>
       PrivValidatorKeyFile config \<notin> readonly w \<and>
       is_dir w (filepath_Dir (PrivValidatorStateFile config)) \<and>
       \<not> is_dir w (PrivValidatorStateFile config) \<and>
       PrivValidatorStateFile config \<notin> readonly w \<and>
       FromTmPubKeyInterface cr (PrivKey_PubKey cr valKey) = Inr pk \<longrightarrow>
       InitializeNodeValidatorFilesFromMnemonic cr config [] w
         = (Inr (NodeKey_ID cr nodeKey, pk),
            w\<lparr>entropy := rest,
              files := (files w)
                (NodeKeyFile config \<mapsto> NodeKeyJSON nodeKey,
                 PrivValidatorKeyFile config \<mapsto> FilePVKeyJSON valKey,
                 PrivValidatorStateFile config \<mapsto> FilePVLastSignStateJSON
                   \<lparr> Height = 0, Round = 0, Step = stepNone, Signature = [], SignBytes = [] \<rparr>)\<rparr>))"
proof (intro conjI impI)
  show "fst (InitializeNodeValidatorFilesFromMnemonic cr config [] w) \<noteq> Inl InvalidMnemonic"
    by (rule provision_empty_never_invalid_mnemonic)
next
  show "InitializeNodeValidatorFilesFromMnemonic (cr\<lparr>IsMnemonicValid := v\<rparr>) config [] w
       = InitializeNodeValidatorFilesFromMnemonic cr config [] w"
    by (rule provision_empty_independent_of_validity)
next
  assume "NodeKeyFile config \<noteq> PrivValidatorKeyFile config \<and>
       NodeKeyFile config \<noteq> PrivValidatorStateFile config \<and>
       PrivValidatorKeyFile config \<noteq> PrivValidatorStateFile config \<and>
       InitializeNodeValidatorFilesFromMnemonic cr config [] w = (Inr (nodeID, valPubKey), w')"
  then show "\<exists>k1 k2.
          nodeID = NodeKey_ID cr k1 \<and>
          FromTmPubKeyInterface cr (PrivKey_PubKey cr k2) = Inr valPubKey \<and>
          files w' (NodeKeyFile config) = Some (NodeKeyJSON k1) \<and>
          files w' (PrivValidatorKeyFile config) = Some (FilePVKeyJSON k2) \<and>
          (files w (NodeKeyFile config) \<noteq> None \<longrightarrow>
             files w (NodeKeyFile config) = Some (NodeKeyJSON k1)) \<and>
          (files w (PrivValidatorKeyFile config) \<noteq> None \<longrightarrow>
             files w (PrivValidatorKeyFile config) = Some (FilePVKeyJSON k2)) \<and>
          entropy w =
            (if files w (NodeKeyFile config) = None then [k1] else []) @
            (if files w (PrivValidatorKeyFile config) = None then [k2] else []) @
            entropy w'"
    by (intro provision_empty_success_keys) simp_all
next
  assume "files w (NodeKeyFile config) = Some (NodeKeyJSON nodeKey) \<and>
       files w (PrivValidatorKeyFile config) = Some (FilePVKeyJSON valKey) \<and>
       files w (PrivValidatorStateFile config) = Some (FilePVLastSignStateJSON st) \<and>
       is_dir w (filepath_Dir (PrivValidatorKeyFile config)) \<and>
       is_dir w (filepath_Dir (PrivValidatorStateFile config)) \<and>
       FromTmPubKeyInterface cr (PrivKey_PubKey cr valKey) = Inr pk"
  then show "InitializeNodeValidatorFilesFromMnemonic cr config [] w
         = (Inr (NodeKey_ID cr nodeKey, pk), w)"
    by (intro provision_empty_loads_both [where st = st and valKey = valKey]) simp_all
next
  assume "files w (NodeKeyFile config) = Some (NodeKeyJSON nodeKey) \<and>
       files w (PrivValidatorKeyFile config) = None \<and>
       entropy w = valKey # rest \<and>
       is_dir w (filepath_Dir (PrivValidatorKeyFile config)) \<and>
       \<not> is_dir w (PrivValidatorKeyFile config) \<and>
       PrivValidatorKeyFile config \<notin> readonly w \<and>
       is_dir w (filepath_Dir (PrivValidatorStateFile config)) \<and>
       \<not> is_dir w (PrivValidatorStateFile config) \<and>
       PrivValidatorStateFile config \<notin> readonly w \<and>
       FromTmPubKeyInterface cr (PrivKey_PubKey cr valKey) = Inr pk"
  then show "InitializeNodeValidatorFilesFromMnemonic cr config [] w
         = (Inr (NodeKey_ID cr nodeKey, pk),
            w\<lparr>entropy := rest,
              files := (files w)
                (PrivValidatorKeyFile config \<mapsto> FilePVKeyJSON valKey,
                 PrivValidatorStateFile config \<mapsto> FilePVLastSignStateJSON
                   \<lparr> Height = 0, Round = 0, Step = stepNone, Signature = [], SignBytes = [] \<rparr>)\<rparr>)"
    by (intro provision_empty_loads_node_generates_validator) simp_all
next
  assume "files w (NodeKeyFile config) = None \<and>
       entropy w = nodeKey # rest \<and>
       is_dir w (filepath_Dir (NodeKeyFile config)) \<and>
       \<not> is_dir w (NodeKeyFile config) \<and>
       NodeKeyFile config \<notin> readonly w \<and>
       files w (PrivValidatorKeyFile config) = Some (FilePVKeyJSON valKey) \<and>
       files w (PrivValidatorStateFile config) = Some (FilePVLastSignStateJSON st) \<and>
       is_dir w (filepath_Dir (PrivValidatorKeyFile config)) \<and>
       is_dir w (filepath_Dir (PrivValidatorStateFile config)) \<and>
       FromTmPubKeyInterface cr (PrivKey_PubKey cr valKey) = Inr pk"
  then show "InitializeNodeValidatorFilesFromMnemonic cr config [] w
         = (Inr (NodeKey_ID cr nodeKey, pk),
            w\<lparr>entropy := rest,
              files := (files w)(NodeKeyFile config \<mapsto> NodeKeyJSON nodeKey)\<rparr>)"
    by (intro provision_empty_generates_node_loads_validator [where st = st and valKey = valKey])
       simp_all
next
  assume "files w (NodeKeyFile config) = None \<and>
       files w (PrivValidatorKeyFile config) = None \<and>
       NodeKeyFile config \<noteq> PrivValidatorKeyFile config \<and>
       entropy w = nodeKey # valKey # rest \<and>
       is_dir w (filepath_Dir (NodeKeyFile config)) \<and>
       \<not> is_dir w (NodeKeyFile config) \<and>
       NodeKeyFile config \<notin> readonly w \<and>
       is_dir w (filepath_Dir (PrivValidatorKeyFile config)) \<and>
       \<not> is_dir w (PrivValidatorKeyFile config) \<and>
       PrivValidatorKeyFile config \<notin> readonly w \<and>
       is_dir w (filepath_Dir (PrivValidatorStateFile config)) \<and>
       \<not> is_dir w (PrivValidatorStateFile config) \<and>
       PrivValidatorStateFile config \<notin> readonly w \<and>
       FromTmPubKeyInterface cr (PrivKey_PubKey cr valKey) = Inr pk"
  then show "InitializeNodeValidatorFilesFromMnemonic cr config [] w
         = (Inr (NodeKey_ID cr nodeKey, pk),
            w\<lparr>entropy := rest,
              files := (files w)
                (NodeKeyFile config \<mapsto> NodeKeyJSON nodeKey,
                 PrivValidatorKeyFile config \<mapsto> FilePVKeyJSON valKey,
                 PrivValidatorStateFile config \<mapsto> FilePVLastSignStateJSON
                   \<lparr> Height = 0, Round = 0, Step = stepNone, Signature = [], SignBytes = [] \<rparr>)\<rparr>)"
    by (intro provision_empty_generates_both) simp_all
qed


lemma crypto0_identifiers:
  "NodeKey_ID crypto0 k = ''id/pub/'' @ k"
  "FromTmPubKeyInterface crypto0 (PrivKey_PubKey crypto0 k) = Inr (''pub/'' @ k)"
  by (simp_all add: crypto0_def NodeKey_ID_def FromTmPubKeyInterface_def)

lemma nodeKeyOnly0_facts:
  "files nodeKeyOnly0 (NodeKeyFile config0) = Some (NodeKeyJSON ''node key on disk'')"
  "files nodeKeyOnly0 (PrivValidatorKeyFile config0) = None"
  "entropy nodeKeyOnly0 = [''random key 3'']"
  "is_dir nodeKeyOnly0 (filepath_Dir (PrivValidatorKeyFile config0))"
  "\<not> is_dir nodeKeyOnly0 (PrivValidatorKeyFile config0)"
  "PrivValidatorKeyFile config0 \<notin> readonly nodeKeyOnly0"
  "is_dir nodeKeyOnly0 (filepath_Dir (PrivValidatorStateFile config0))"
  "\<not> is_dir nodeKeyOnly0 (PrivValidatorStateFile config0)"
  "PrivValidatorStateFile config0 \<notin> readonly nodeKeyOnly0"
  using initialized0_layout config0_paths
  by (simp_all add: nodeKeyOnly0_def) (simp_all add: initialized0_def)

lemma validatorOnly0_facts:
  "files validatorOnly0 (NodeKeyFile config0) = None"
  "entropy validatorOnly0 = [''random key 3'']"
  "is_dir validatorOnly0 (filepath_Dir (NodeKeyFile config0))"
  "\<not> is_dir validatorOnly0 (NodeKeyFile config0)"
  "NodeKeyFile config0 \<notin> readonly validatorOnly0"
  "files validatorOnly0 (PrivValidatorKeyFile config0)
     = Some (FilePVKeyJSON ''validator key on disk'')"
  "files validatorOnly0 (PrivValidatorStateFile config0)
     = Some (FilePVLastSignStateJSON signedState)"
  "is_dir validatorOnly0 (filepath_Dir (PrivValidatorKeyFile config0))"
  "is_dir validatorOnly0 (filepath_Dir (PrivValidatorStateFile config0))"
  using initialized0_layout config0_paths
  by (simp_all add: validatorOnly0_def) (simp_all add: initialized0_def)

lemma initialized0_files:
  "files initialized0 (NodeKeyFile config0) = Some (NodeKeyJSON ''node key on disk'')"
  "files initialized0 (PrivValidatorKeyFile config0)
     = Some (FilePVKeyJSON ''validator key on disk'')"
  "files initialized0 (PrivValidatorStateFile config0)
     = Some (FilePVLastSignStateJSON signedState)"
  using config0_paths by (simp_all add: initialized0_def)

lemma emptyHome0_facts:
  "files emptyHome0 (NodeKeyFile config0) = None"
  "files emptyHome0 (PrivValidatorKeyFile config0) = None"
  "entropy emptyHome0 = [''random key 4'', ''random key 5'']"
  "is_dir emptyHome0 (filepath_Dir (NodeKeyFile config0))"
  "\<not> is_dir emptyHome0 (NodeKeyFile config0)"
  "NodeKeyFile config0 \<notin> readonly emptyHome0"
  "is_dir emptyHome0 (filepath_Dir (PrivValidatorKeyFile config0))"
  "\<not> is_dir emptyHome0 (PrivValidatorKeyFile config0)"
  "PrivValidatorKeyFile config0 \<notin> readonly emptyHome0"
  "is_dir emptyHome0 (filepath_Dir (PrivValidatorStateFile config0))"
  "\<not> is_dir emptyHome0 (PrivValidatorStateFile config0)"
  "PrivValidatorStateFile config0 \<notin> readonly emptyHome0"
  by (simp_all add: emptyHome0_def config0_def is_dir_def filepath_Dir_def)

theorem empty_mnemonic_loads_or_generates_witness:
  "NodeKeyFile config0 \<noteq> PrivValidatorKeyFile config0
   \<and> NodeKeyFile config0 \<noteq> PrivValidatorStateFile config0
   \<and> PrivValidatorKeyFile config0 \<noteq> PrivValidatorStateFile config0
   \<and> fst (InitializeNodeValidatorFilesFromMnemonic crypto0 config0 [] fresh0) \<noteq> Inl InvalidMnemonic
   \<and> InitializeNodeValidatorFilesFromMnemonic (crypto0\<lparr>IsMnemonicValid := (\<lambda>m. False)\<rparr>)
         config0 [] fresh0
       = InitializeNodeValidatorFilesFromMnemonic crypto0 config0 [] fresh0
   \<and> InitializeNodeValidatorFilesFromMnemonic crypto0 config0 [] fresh0
       = (Inr (''id/pub/random key 1'', ''pub/random key 2''), provisioned0)
   \<and> files fresh0 (NodeKeyFile config0) = None
   \<and> files fresh0 (PrivValidatorKeyFile config0) = None
   \<and> (\<exists>k1 k2.
        ''id/pub/random key 1'' = NodeKey_ID crypto0 k1 \<and>
        files provisioned0 (NodeKeyFile config0) = Some (NodeKeyJSON k1) \<and>
        files provisioned0 (PrivValidatorKeyFile config0) = Some (FilePVKeyJSON k2) \<and>
        entropy fresh0 = [k1] @ [k2] @ entropy provisioned0)
   \<and> InitializeNodeValidatorFilesFromMnemonic crypto0 config0 [] initialized0
       = (Inr (NodeKey_ID crypto0 ''node key on disk'', ''pub/validator key on disk''),
          initialized0)
   \<and> InitializeNodeValidatorFilesFromMnemonic crypto0 config0 [] nodeKeyOnly0
       = (Inr (NodeKey_ID crypto0 ''node key on disk'', ''pub/random key 3''),
          nodeKeyOnly0\<lparr>entropy := [],
            files := (files nodeKeyOnly0)
              (PrivValidatorKeyFile config0 \<mapsto> FilePVKeyJSON ''random key 3'',
               PrivValidatorStateFile config0 \<mapsto> FilePVLastSignStateJSON
                 \<lparr> Height = 0, Round = 0, Step = stepNone, Signature = [], SignBytes = [] \<rparr>)\<rparr>)
   \<and> InitializeNodeValidatorFilesFromMnemonic crypto0 config0 [] validatorOnly0
       = (Inr (NodeKey_ID crypto0 ''random key 3'', ''pub/validator key on disk''),
          validatorOnly0\<lparr>entropy := [],
            files := (files validatorOnly0)
              (NodeKeyFile config0 \<mapsto> NodeKeyJSON ''random key 3'')\<rparr>)
   \<and> InitializeNodeValidatorFilesFromMnemonic crypto0 config0 [] emptyHome0
       = (Inr (NodeKey_ID crypto0 ''random key 4'', ''pub/random key 5''),
          emptyHome0\<lparr>entropy := [],
            files := (files emptyHome0)
              (NodeKeyFile config0 \<mapsto> NodeKeyJSON ''random key 4'',
               PrivValidatorKeyFile config0 \<mapsto> FilePVKeyJSON ''random key 5'',
               PrivValidatorStateFile config0 \<mapsto> FilePVLastSignStateJSON
                 \<lparr> Height = 0, Round = 0, Step = stepNone, Signature = [], SignBytes = [] \<rparr>)\<rparr>)"
proof -
  note at_fresh = empty_mnemonic_loads_or_generates
    [where cr = crypto0 and config = config0 and w = fresh0 and v = "\<lambda>m. False"
       and nodeID = "''id/pub/random key 1''" and valPubKey = "''pub/random key 2''"
       and w' = provisioned0]
  have f: "files fresh0 (NodeKeyFile config0) = None"
    "files fresh0 (PrivValidatorKeyFile config0) = None"
    by (simp_all add: fresh0_def)
  from at_fresh [THEN conjunct2, THEN conjunct2, THEN conjunct1] config0_paths fresh0_run_empty f
  have 3: "\<exists>k1 k2.
        ''id/pub/random key 1'' = NodeKey_ID crypto0 k1 \<and>
        files provisioned0 (NodeKeyFile config0) = Some (NodeKeyJSON k1) \<and>
        files provisioned0 (PrivValidatorKeyFile config0) = Some (FilePVKeyJSON k2) \<and>
        entropy fresh0 = [k1] @ [k2] @ entropy provisioned0"
    by auto
  have 4: "InitializeNodeValidatorFilesFromMnemonic crypto0 config0 [] initialized0
       = (Inr (NodeKey_ID crypto0 ''node key on disk'', ''pub/validator key on disk''),
          initialized0)"
    using empty_mnemonic_loads_or_generates
      [where cr = crypto0 and config = config0 and w = initialized0
         and nodeKey = "''node key on disk''" and valKey = "''validator key on disk''"
         and st = signedState and pk = "''pub/validator key on disk''",
       THEN conjunct2, THEN conjunct2, THEN conjunct2, THEN conjunct1]
      initialized0_files initialized0_layout
      crypto0_identifiers(2) [of "''validator key on disk''"]
    by simp
  have 5: "InitializeNodeValidatorFilesFromMnemonic crypto0 config0 [] nodeKeyOnly0
       = (Inr (NodeKey_ID crypto0 ''node key on disk'', ''pub/random key 3''),
          nodeKeyOnly0\<lparr>entropy := [],
            files := (files nodeKeyOnly0)
              (PrivValidatorKeyFile config0 \<mapsto> FilePVKeyJSON ''random key 3'',
               PrivValidatorStateFile config0 \<mapsto> FilePVLastSignStateJSON
                 \<lparr> Height = 0, Round = 0, Step = stepNone, Signature = [], SignBytes = [] \<rparr>)\<rparr>)"
    using empty_mnemonic_loads_or_generates
      [where cr = crypto0 and config = config0 and w = nodeKeyOnly0
         and nodeKey = "''node key on disk''" and valKey = "''random key 3''"
         and rest = "[]" and pk = "''pub/random key 3''",
       THEN conjunct2, THEN conjunct2, THEN conjunct2, THEN conjunct2, THEN conjunct1]
      nodeKeyOnly0_facts crypto0_identifiers(2) [of "''random key 3''"]
    by simp
  have 6: "InitializeNodeValidatorFilesFromMnemonic crypto0 config0 [] validatorOnly0
       = (Inr (NodeKey_ID crypto0 ''random key 3'', ''pub/validator key on disk''),
          validatorOnly0\<lparr>entropy := [],
            files := (files validatorOnly0)
              (NodeKeyFile config0 \<mapsto> NodeKeyJSON ''random key 3'')\<rparr>)"
    using empty_mnemonic_loads_or_generates
      [where cr = crypto0 and config = config0 and w = validatorOnly0
         and nodeKey = "''random key 3''" and valKey = "''validator key on disk''"
         and st = signedState and rest = "[]" and pk = "''pub/validator key on disk''",
       THEN conjunct2, THEN conjunct2, THEN conjunct2, THEN conjunct2, THEN conjunct2,
       THEN conjunct1]
      validatorOnly0_facts crypto0_identifiers(2) [of "''validator key on disk''"]
    by simp
  have 7: "InitializeNodeValidatorFilesFromMnemonic crypto0 config0 [] emptyHome0
       = (Inr (NodeKey_ID crypto0 ''random key 4'', ''pub/random key 5''),
          emptyHome0\<lparr>entropy := [],
            files := (files emptyHome0)
              (NodeKeyFile config0 \<mapsto> NodeKeyJSON ''random key 4'',
               PrivValidatorKeyFile config0 \<mapsto> FilePVKeyJSON ''random key 5'',
               PrivValidatorStateFile config0 \<mapsto> FilePVLastSignStateJSON
                 \<lparr> Height = 0, Round = 0, Step = stepNone, Signature = [], SignBytes = [] \<rparr>)\<rparr>)"
    using empty_mnemonic_loads_or_generates
      [where cr = crypto0 and config = config0 and w = emptyHome0
         and nodeKey = "''random key 4''" and valKey = "''random key 5''"
         and rest = "[]" and pk = "''pub/random key 5''",
       THEN conjunct2, THEN conjunct2, THEN conjunct2, THEN conjunct2, THEN conjunct2,
       THEN conjunct2]
      emptyHome0_facts config0_paths(1) crypto0_identifiers(2) [of "''random key 5''"]
    by simp
  from at_fresh [THEN conjunct1] at_fresh [THEN conjunct2, THEN conjunct1]
    config0_paths fresh0_run_empty f 3 4 5 6 7
  show ?thesis by (intro conjI)
qed

subsection \<open>The directories of the validator files\<close>

lemma EnsureDir_dirs:
  "EnsureDir dir mode w = (r, w') \<Longrightarrow>
     (\<forall>q. dirs w q \<noteq> None \<longrightarrow> dirs w' q = dirs w q) \<and>
     (\<forall>q. dirs w q = None \<and> dirs w' q \<noteq> None \<longrightarrow> dirs w' q = Some (mode AND NOT (umask w))) \<and>
     (r = None \<longrightarrow> is_dir w' dir)"
  unfolding EnsureDir_def by (rule MkdirAll_dirs)

lemma provision_stages_dirs:
  assumes n: "dirs w1 = dirs w" "umask w1 = umask w" "\<forall>q. q \<noteq> nk \<longrightarrow> files w1 q = files w q"
    and s2: "EnsureDir d1 mode w1 = (r2, w2)"
    and s3: "EnsureDir d2 mode w2 = (r3, w3)"
    and p: "dirs w4 = dirs w3" "\<forall>q. q \<noteq> pvk \<and> q \<noteq> pvs \<longrightarrow> files w4 q = files w3 q"
    and fin: "w' = w1 \<or> w' = w2 \<or> w' = w3 \<or> (w' = w4 \<and> r2 = None \<and> r3 = None)"
    and ok: "success \<longrightarrow> w' = w4 \<and> r2 = None \<and> r3 = None"
  shows "(\<forall>q. dirs w q \<noteq> None \<longrightarrow> dirs w' q = dirs w q)
     \<and> (\<forall>q. dirs w q = None \<and> dirs w' q \<noteq> None \<longrightarrow> dirs w' q = Some (mode AND NOT (umask w)))
     \<and> (success \<longrightarrow> is_dir w' d1 \<and> is_dir w' d2)
     \<and> (nk \<noteq> pvk \<and> nk \<noteq> pvs \<and> (files w' pvk \<noteq> files w pvk \<or> files w' pvs \<noteq> files w pvs)
          \<longrightarrow> is_dir w' d1 \<and> is_dir w' d2)"
proof -
  note e2 = EnsureDir_dirs [OF s2] and e3 = EnsureDir_dirs [OF s3]
  have u2: "umask w2 = umask w" using EnsureDir_frame [OF s2] n by simp
  have f2: "files w2 = files w1" using EnsureDir_frame [OF s2] by simp
  have f3: "files w3 = files w1" using EnsureDir_frame [OF s3] f2 by simp
  have keep2: "\<forall>q. dirs w q \<noteq> None \<longrightarrow> dirs w2 q = dirs w q"
    using e2 n by simp
  have keep3: "\<forall>q. dirs w q \<noteq> None \<longrightarrow> dirs w3 q = dirs w q"
    using e3 keep2 by (metis)
  have new2: "\<forall>q. dirs w q = None \<and> dirs w2 q \<noteq> None \<longrightarrow> dirs w2 q = Some (mode AND NOT (umask w))"
    using e2 n by simp
  have new3: "\<forall>q. dirs w q = None \<and> dirs w3 q \<noteq> None \<longrightarrow> dirs w3 q = Some (mode AND NOT (umask w))"
    using e3 new2 u2 by (metis)
  have both: "r2 = None \<and> r3 = None \<longrightarrow> is_dir w4 d1 \<and> is_dir w4 d2"
  proof
    assume r: "r2 = None \<and> r3 = None"
    with e2 have "is_dir w2 d1" by simp
    then have "is_dir w3 d1" using e3 by (auto simp: is_dir_def)
    moreover from r e3 have "is_dir w3 d2" by simp
    ultimately show "is_dir w4 d1 \<and> is_dir w4 d2" using p by (simp add: is_dir_def)
  qed
  have untouched: "nk \<noteq> pvk \<and> nk \<noteq> pvs \<longrightarrow>
      (\<forall>v \<in> {w1, w2, w3}. files v pvk = files w pvk \<and> files v pvs = files w pvs)"
    using n f2 f3 by auto
  have A: "\<forall>q. dirs w q \<noteq> None \<longrightarrow> dirs w' q = dirs w q"
    using fin n keep2 keep3 p by auto
  have B: "\<forall>q. dirs w q = None \<and> dirs w' q \<noteq> None \<longrightarrow> dirs w' q = Some (mode AND NOT (umask w))"
    using fin n new2 new3 p by auto
  have C: "success \<longrightarrow> is_dir w' d1 \<and> is_dir w' d2"
    using ok both by blast
  have D: "nk \<noteq> pvk \<and> nk \<noteq> pvs \<and> (files w' pvk \<noteq> files w pvk \<or> files w' pvs \<noteq> files w pvs)
          \<longrightarrow> is_dir w' d1 \<and> is_dir w' d2"
    using fin untouched both by blast
  from A B C D show ?thesis by (intro conjI)
qed

text \<open>
  C7, as the code has it. Whatever the mnemonic and the outcome, the call changes no
  existing directory, and every directory it creates gets the mode \<open>0777\<close> (511) less the
  process umask: the source passes \<open>0777\<close> to \<open>EnsureDir\<close>, not a restrictive mode. After a
  successful call both containing directories exist. The directories are ensured before
  the validator files are written: if the call has changed the validator key file or
  the signing-state file (their paths differing from the node key's), both directories
  exist.
\<close>

theorem validator_directories_ensured_with_mode_0777:
  assumes "InitializeNodeValidatorFilesFromMnemonic cr config mnemonic w = (r, w')"
  shows "(\<forall>q. dirs w q \<noteq> None \<longrightarrow> dirs w' q = dirs w q)
     \<and> (\<forall>q. dirs w q = None \<and> dirs w' q \<noteq> None \<longrightarrow> dirs w' q = Some (511 AND NOT (umask w)))
     \<and> ((\<exists>res. r = Inr res) \<longrightarrow>
          is_dir w' (filepath_Dir (PrivValidatorKeyFile config)) \<and>
          is_dir w' (filepath_Dir (PrivValidatorStateFile config)))
     \<and> (NodeKeyFile config \<noteq> PrivValidatorKeyFile config \<and>
        NodeKeyFile config \<noteq> PrivValidatorStateFile config \<and>
        (files w' (PrivValidatorKeyFile config) \<noteq> files w (PrivValidatorKeyFile config) \<or>
         files w' (PrivValidatorStateFile config) \<noteq> files w (PrivValidatorStateFile config))
        \<longrightarrow> is_dir w' (filepath_Dir (PrivValidatorKeyFile config)) \<and>
            is_dir w' (filepath_Dir (PrivValidatorStateFile config)))"
proof -
  let ?nk = "NodeKeyFile config" and ?pvk = "PrivValidatorKeyFile config"
    and ?pvs = "PrivValidatorStateFile config"
  let ?d1 = "filepath_Dir ?pvk" and ?d2 = "filepath_Dir ?pvs"
  consider (invalid) "mnemonic \<noteq> []" "\<not> IsMnemonicValid cr mnemonic"
    | (empty) "mnemonic = []"
    | (valid) "mnemonic \<noteq> []" "IsMnemonicValid cr mnemonic"
    by blast
  then show ?thesis
  proof cases
    case invalid
    with assms have "r = Inl InvalidMnemonic" "w' = w"
      by (simp_all add: InitializeNodeValidatorFilesFromMnemonic_def)
    then show ?thesis by auto
  next
    case empty
    obtain r1 w1 where s1: "LoadOrGenNodeKey ?nk w = (r1, w1)"
      by (cases "LoadOrGenNodeKey ?nk w")
    obtain r2 w2 where s2: "EnsureDir ?d1 511 w1 = (r2, w2)"
      by (cases "EnsureDir ?d1 511 w1")
    obtain r3 w3 where s3: "EnsureDir ?d2 511 w2 = (r3, w3)"
      by (cases "EnsureDir ?d2 511 w2")
    obtain r4 w4 where s4: "LoadOrGenFilePV ?pvk ?pvs w3 = (r4, w4)"
      by (cases "LoadOrGenFilePV ?pvk ?pvs w3")
    note run = assms [unfolded empty provision_empty_staged [OF s1 s2 s3 s4]]
    have fin: "w' = w1 \<or> w' = w2 \<or> w' = w3 \<or> (w' = w4 \<and> r2 = None \<and> r3 = None)"
      using run by (auto split: sum.splits option.splits)
    have ok: "(\<exists>res. r = Inr res) \<longrightarrow> w' = w4 \<and> r2 = None \<and> r3 = None"
      using run by (auto split: sum.splits option.splits)
    show ?thesis
      using LoadOrGenNodeKey_frame [OF s1] LoadOrGenFilePV_frame [OF s4]
      by (intro provision_stages_dirs [OF _ _ _ s2 s3 _ _ fin ok]) simp_all
  next
    case valid
    let ?k = "GenPrivKeyFromSecret cr mnemonic"
    obtain r1 w1 where s1: "NodeKey_SaveAs ?k ?nk w = (r1, w1)"
      by (cases "NodeKey_SaveAs ?k ?nk w")
    obtain r2 w2 where s2: "EnsureDir ?d1 511 w1 = (r2, w2)"
      by (cases "EnsureDir ?d1 511 w1")
    obtain r3 w3 where s3: "EnsureDir ?d2 511 w2 = (r3, w3)"
      by (cases "EnsureDir ?d2 511 w2")
    obtain r4 w4 where s4: "FilePV_Save (NewFilePV ?k ?pvk ?pvs) w3 = (r4, w4)"
      by (cases "FilePV_Save (NewFilePV ?k ?pvk ?pvs) w3")
    note run = assms [unfolded provision_mnemonic_staged [OF valid s1 s2 s3 s4]]
    have fin: "w' = w1 \<or> w' = w2 \<or> w' = w3 \<or> (w' = w4 \<and> r2 = None \<and> r3 = None)"
      using run by (auto split: sum.splits option.splits)
    have ok: "(\<exists>res. r = Inr res) \<longrightarrow> w' = w4 \<and> r2 = None \<and> r3 = None"
      using run by (auto split: sum.splits option.splits)
    have n: "dirs w1 = dirs w" "umask w1 = umask w" "\<forall>q. q \<noteq> ?nk \<longrightarrow> files w1 q = files w q"
      using WriteFile_frame [OF s1 [unfolded NodeKey_SaveAs_def]]
        WriteFile_files [OF s1 [unfolded NodeKey_SaveAs_def]] by simp_all
    have p: "dirs w4 = dirs w3" "\<forall>q. q \<noteq> ?pvk \<and> q \<noteq> ?pvs \<longrightarrow> files w4 q = files w3 q"
      using FilePV_Save_frame [OF s4] by (simp_all add: NewFilePV_def)
    show ?thesis
      by (rule provision_stages_dirs [OF n s2 s3 p fin ok])
  qed
qed

theorem validator_directories_ensured_with_mode_0777_witness:
  "InitializeNodeValidatorFilesFromMnemonic crypto0 config0 [] fresh0
       = (Inr (''id/pub/random key 1'', ''pub/random key 2''), provisioned0)
   \<and> dirs provisioned0 [''home'', ''config''] = dirs fresh0 [''home'', ''config'']
   \<and> dirs fresh0 [''home'', ''data''] = None
   \<and> dirs provisioned0 [''home'', ''data''] = Some (511 AND NOT (umask fresh0))
   \<and> is_dir provisioned0 (filepath_Dir (PrivValidatorKeyFile config0))
   \<and> is_dir provisioned0 (filepath_Dir (PrivValidatorStateFile config0))
   \<and> NodeKeyFile config0 \<noteq> PrivValidatorKeyFile config0
   \<and> NodeKeyFile config0 \<noteq> PrivValidatorStateFile config0
   \<and> files provisioned0 (PrivValidatorKeyFile config0) \<noteq> files fresh0 (PrivValidatorKeyFile config0)"
proof -
  note at_fresh = validator_directories_ensured_with_mode_0777 [OF fresh0_run_empty]
  have a: "dirs fresh0 [''home'', ''config''] \<noteq> None" "dirs fresh0 [''home'', ''data''] = None"
    "dirs provisioned0 [''home'', ''data''] \<noteq> None"
    by (simp_all add: fresh0_def provisioned0_def)
  have b: "files provisioned0 (PrivValidatorKeyFile config0)
      \<noteq> files fresh0 (PrivValidatorKeyFile config0)"
    using config0_paths by (simp add: fresh0_def provisioned0_def)
  have 1: "dirs provisioned0 [''home'', ''config''] = dirs fresh0 [''home'', ''config'']"
    using at_fresh [THEN conjunct1] a by blast
  have 2: "dirs provisioned0 [''home'', ''data''] = Some (511 AND NOT (umask fresh0))"
    using at_fresh [THEN conjunct2, THEN conjunct1] a by blast
  have 3: "is_dir provisioned0 (filepath_Dir (PrivValidatorKeyFile config0)) \<and>
      is_dir provisioned0 (filepath_Dir (PrivValidatorStateFile config0))"
    using at_fresh [THEN conjunct2, THEN conjunct2, THEN conjunct2] b config0_paths by blast
  from 1 2 3 a b config0_paths fresh0_run_empty show ?thesis by (intro conjI) simp_all
qed

text \<open>
  C7 as stated promises restrictive permissions. On a fresh node home with umask 022
  the missing \<open>data\<close> directory is created with mode \<open>0755\<close> (493), the requested \<open>0777\<close>
  less the umask: group and others may read and traverse it, so the mode is not
  owner-only.
\<close>

theorem validator_directory_mode_counterexample:
  "filepath_Dir (PrivValidatorStateFile config0) = [''home'', ''data'']
   \<and> dirs fresh0 [''home'', ''data''] = None
   \<and> umask fresh0 = 18
   \<and> dirs (snd (InitializeNodeValidatorFilesFromMnemonic crypto0 config0 [] fresh0))
        [''home'', ''data''] = Some 493
   \<and> \<not> owner_only 493
   \<and> \<not> owner_only 511"
  by (simp add: fresh0_run_empty)
     (simp add: provisioned0_def fresh0_def config0_def filepath_Dir_def owner_only_def)

end
